theory Spec2Isabelle
  imports Main "HOL-Library.Word" "HOL-Library.Monad_Syntax" "HOL-Library.AList"
begin

unbundle bit_operations_syntax

section \<open>Data model\<close>

text \<open>
  Node keys are opaque identifiers, unique within a view model. The key of the root is
  the constant \<open>root\<close> of the source (\<open>viewModel.nodeMap.root = root\<close>); keys are modelled
  as natural numbers with the root at 0.
\<close>

type_synonym NodeKey = nat

definition ROOT_KEY :: NodeKey where
  "ROOT_KEY = 0"

text \<open>
  The classes of nodes the helpers distinguish with \<open>isRootNode\<close>, \<open>isBlockNode\<close>,
  \<open>isTextNode\<close>, \<open>isHashtagNode\<close>, \<open>isDecoratorNode\<close> and \<open>isLeafNode\<close>.
\<close>

datatype NodeType = RootT | BlockT | TextT | HashtagT | LineBreakT | DecoratorT

text \<open>
  The format bitset of a text node and of the selection: JavaScript's bitwise operators
  work on 32-bit integers.
\<close>

type_synonym TextFormat = "32 word"

text \<open>
  Text is a \<open>string\<close>: a list of characters that stand for the UTF-16 code units below
  256, so that the length of the list is JavaScript's \<open>length\<close>.

  One record for every node class, with the fields \<open>__parent\<close>, \<open>__children\<close>, \<open>__text\<close>,
  \<open>__format\<close>, \<open>__style\<close> that \<open>cloneWithProperties\<close> copies, and the bits of \<open>__flags\<close>
  and the per-class answers the helpers ask for (\<open>isImmutable\<close>, \<open>isSegmented\<close>, inert,
  \<open>isComposing\<close>, \<open>canInsertTextAtEnd\<close>, \<open>canBeEmpty\<close>) as booleans.
\<close>

record OutlineNode =
  n_type :: NodeType
  n_parent :: "NodeKey option"
  n_children :: "NodeKey list"
  n_text :: string
  n_format :: TextFormat
  n_style :: string
  n_immutable :: bool
  n_segmented :: bool
  n_inert :: bool
  n_composing :: bool
  n_canInsertTextAtEnd :: bool
  n_canBeEmpty :: bool

datatype PointType = TextP | BlockP

text \<open>
  A point is a (key, offset, type) triple. Offsets are JavaScript numbers that the code
  decrements (\<open>offset -= text.length\<close>), so they are integers, not naturals.
\<close>

record Point =
  p_key :: NodeKey
  p_offset :: int
  p_type :: PointType

record Selection =
  anchor :: Point
  focus :: Point
  textFormat :: TextFormat
  isDirty :: bool

text \<open>
  A view model: the key-to-node map, the selection (or null) and the dirty set of the
  draft cycle. The map is an association list read with \<open>map_of\<close>.
\<close>

record ViewModel =
  nodeMap :: "(NodeKey \<times> OutlineNode) list"
  selection :: "Selection option"
  dirtyNodes :: "NodeKey list"

section \<open>The editor host (OutlineEditor.js)\<close>

text \<open>
  View models are JavaScript objects compared by reference, and the editor's fields
  \<open>_viewModel\<close> and \<open>_pendingViewModel\<close> alias them. The model keeps them in a store
  addressed by references; \<open>nextRef\<close> is the allocator.

  What an execution does besides changing fields is recorded in a trace: the clones made,
  the scopes entered, the commits and the listener calls. The microtask queue of
  \<open>Promise.resolve().then(...)\<close> is the list \<open>microtasks\<close>; every task the source queues
  is a call of \<open>commitPendingUpdates\<close>.
\<close>

type_synonym ViewModelRef = nat

type_synonym TimeStamp = int

datatype Event =
    Cloned ViewModelRef ViewModelRef
  | EnteredScope ViewModelRef
  | Committed ViewModelRef
  | ListenerInvoked nat ViewModelRef

datatype Task = CommitTask

record OutlineEditor =
  viewModel :: ViewModelRef
  pendingViewModel :: "ViewModelRef option"
  updateTimeStamp :: TimeStamp
  updateListeners :: "nat list"
  nodeDecorators :: "(NodeKey \<times> nat) list"
  pendingNodeDecorators :: "(NodeKey \<times> nat) list option"
  store :: "ViewModelRef \<Rightarrow> ViewModel"
  nextRef :: ViewModelRef
  microtasks :: "Task list"
  trace :: "Event list"

text \<open>
  \<open>OutlineView.js\<close> and \<open>OutlineSelection.js\<close> are not part of the sources at hand. What
  \<open>update\<close> imports from them and only calls through is taken as a parameter:
  \<open>createSelection\<close>, \<open>viewModelHasDirtySelection\<close>, \<open>applyTextTransforms\<close> and
  \<open>garbageCollectDetachedNodes\<close>. In the source they receive the editor; here they
  receive what they read of it: the current view model for the first two, and for the
  garbage collection the buffer of pending node decorators, which it may fill with the
  decorators of the nodes it drops and which it returns.
\<close>

type_synonym NodeDecorators = "(NodeKey \<times> nat) list"

record Collaborators =
  createSelection :: "ViewModel \<Rightarrow> ViewModel \<Rightarrow> Selection option"
  viewModelHasDirtySelection :: "ViewModel \<Rightarrow> ViewModel \<Rightarrow> bool"
  applyTextTransforms :: "ViewModel \<Rightarrow> ViewModel"
  garbageCollectDetachedNodes ::
    "ViewModel \<Rightarrow> NodeDecorators option \<Rightarrow> ViewModel \<times> NodeDecorators option"

text \<open>
  Modelled from the spec: \<open>ViewModel.hasDirtyNodes\<close> of \<open>OutlineView.js\<close>; the dirty set
  records which node keys were modified in the draft cycle.
\<close>

definition hasDirtyNodes :: "ViewModel \<Rightarrow> bool" where
  "hasDirtyNodes vm = (dirtyNodes vm \<noteq> [])"

text \<open>
  Modelled from the spec: \<open>cloneViewModel\<close> of \<open>OutlineView.js\<close>; the clone aliases every
  entry of the node map, copies the selection, and starts with an empty dirty set (the
  dirty set is reset at the start of each draft cycle). The clone is a new object:
  it is allocated at \<open>nextRef\<close>.
\<close>

definition cloneViewModel :: "ViewModelRef \<Rightarrow> OutlineEditor \<Rightarrow> ViewModelRef \<times> OutlineEditor" where
  "cloneViewModel src e =
     (let r = nextRef e;
          draft = (store e src)\<lparr>dirtyNodes := []\<rparr>
      in (r, e\<lparr>store := (store e)(r := draft),
               nextRef := Suc r,
               trace := trace e @ [Cloned src r]\<rparr>))"

text \<open>
  Modelled from the spec: \<open>triggerUpdateListeners\<close> of \<open>OutlineView.js\<close>; every registered
  update listener is invoked synchronously with the current view model.
\<close>

definition triggerUpdateListeners :: "OutlineEditor \<Rightarrow> OutlineEditor" where
  "triggerUpdateListeners e =
     e\<lparr>trace := trace e @ map (\<lambda>l. ListenerInvoked l (viewModel e)) (updateListeners e)\<rparr>"

text \<open>
  Modelled from the spec: \<open>commitPendingUpdates\<close> of \<open>OutlineView.js\<close>; swap current
  \<open>\<leftarrow>\<close> pending, set pending \<open>\<leftarrow>\<close> null, swap the node-decorator buffer from pending to
  active, then invoke every registered update listener. With no pending view model
  there is nothing to commit.
\<close>

definition commitPendingUpdates :: "OutlineEditor \<Rightarrow> OutlineEditor" where
  "commitPendingUpdates e =
     (case pendingViewModel e of
        None \<Rightarrow> e
      | Some p \<Rightarrow>
          triggerUpdateListeners
            (e\<lparr>viewModel := p,
               pendingViewModel := None,
               nodeDecorators :=
                 (case pendingNodeDecorators e of None \<Rightarrow> nodeDecorators e | Some d \<Rightarrow> d),
               pendingNodeDecorators := None,
               trace := trace e @ [Committed p]\<rparr>))"

text \<open>
  The function passed to \<open>enterViewModelScope\<close> in \<open>update\<close> (lines 177-189): a fresh clone
  gets its selection from \<open>createSelection\<close>, the caller's callback runs, and a dirty draft
  goes through the text transforms and the garbage collection.
\<close>

definition scopeBody ::
  "Collaborators \<Rightarrow> (ViewModel \<Rightarrow> ViewModel) \<Rightarrow> bool \<Rightarrow> ViewModel
     \<Rightarrow> NodeDecorators option \<Rightarrow> ViewModel \<Rightarrow> ViewModel \<times> NodeDecorators option" where
  "scopeBody c callbackFn viewModelWasCloned current pending pvm =
     (let pvm1 = (if viewModelWasCloned
                  then pvm\<lparr>selection := createSelection c pvm current\<rparr> else pvm);
          pvm2 = callbackFn pvm1
      in if hasDirtyNodes pvm2
         then garbageCollectDetachedNodes c (applyTextTransforms c pvm2) pending
         else (pvm2, pending))"

text \<open>
  \<open>enterViewModelScope(fn, pendingViewModel, false)\<close>: the function runs against the view
  model object at the reference, which it mutates in place, and against the editor's
  buffer of pending node decorators.
\<close>

definition enterViewModelScope ::
  "(NodeDecorators option \<Rightarrow> ViewModel \<Rightarrow> ViewModel \<times> NodeDecorators option)
     \<Rightarrow> ViewModelRef \<Rightarrow> OutlineEditor \<Rightarrow> OutlineEditor" where
  "enterViewModelScope f r e =
     e\<lparr>store := (store e)(r := fst (f (pendingNodeDecorators e) (store e r))),
       pendingNodeDecorators := snd (f (pendingNodeDecorators e) (store e r)),
       trace := trace e @ [EnteredScope r]\<rparr>"

text \<open>
  \<open>OutlineEditor.update\<close>, lines 154-209, in the order of the source. The optional
  \<open>timeStamp\<close> is an option; \<open>this._updateTimeStamp !== timeStamp\<close> compares a number
  with a number or \<open>undefined\<close>. Time stamps are integers.

  Lines 155-165: a draft of another time stamp is committed first. The result is the
  local \<open>pendingViewModel\<close> and the editor.
\<close>

definition forceCommit :: "TimeStamp option \<Rightarrow> OutlineEditor \<Rightarrow> ViewModelRef option \<times> OutlineEditor" where
  "forceCommit timeStamp e =
     (if Some (updateTimeStamp e) \<noteq> timeStamp
      then (let e1 = (if pendingViewModel e \<noteq> None then commitPendingUpdates e else e);
                e2 = (case timeStamp of None \<Rightarrow> e1 | Some t \<Rightarrow> e1\<lparr>updateTimeStamp := t\<rparr>)
            in (None, e2))
      else (pendingViewModel e, e))"

text \<open>
  Lines 166-174: without a draft the current view model is cloned. The result is the
  draft, \<open>viewModelWasCloned\<close>, and the editor.
\<close>

definition obtainDraft :: "ViewModelRef option \<Rightarrow> OutlineEditor \<Rightarrow> (ViewModelRef \<times> bool) \<times> OutlineEditor" where
  "obtainDraft pvm e =
     (case pvm of
        None \<Rightarrow>
          (let (r, e1) = cloneViewModel (viewModel e) e
           in ((r, True), e1\<lparr>pendingViewModel := Some r\<rparr>))
      | Some p \<Rightarrow> ((p, False), e))"

text \<open>
  Lines 155-192: the draft the callback ran against, whether this call cloned it, and the
  editor when \<open>enterViewModelScope\<close> has returned.
\<close>

definition prepareDraft ::
  "Collaborators \<Rightarrow> (ViewModel \<Rightarrow> ViewModel) \<Rightarrow> TimeStamp option \<Rightarrow> OutlineEditor
     \<Rightarrow> (ViewModelRef \<times> bool) \<times> OutlineEditor" where
  "prepareDraft c callbackFn timeStamp e =
     (let (pvm0, e1) = forceCommit timeStamp e;
          ((p, viewModelWasCloned), e2) = obtainDraft pvm0 e1
      in ((p, viewModelWasCloned),
          enterViewModelScope
            (scopeBody c callbackFn viewModelWasCloned (store e2 (viewModel e2))) p e2))"

text \<open>Lines 193-195: \<open>shouldUpdate\<close>.\<close>

definition shouldUpdate :: "Collaborators \<Rightarrow> ViewModelRef \<Rightarrow> OutlineEditor \<Rightarrow> bool" where
  "shouldUpdate c p e =
     (hasDirtyNodes (store e p)
      \<or> viewModelHasDirtySelection c (store e p) (store e (viewModel e)))"

text \<open>
  Lines 197-209: the draft is dropped, committed now, or left to the microtask. The
  result is the boolean the method returns and the editor after it.
\<close>

definition update ::
  "Collaborators \<Rightarrow> (ViewModel \<Rightarrow> ViewModel) \<Rightarrow> TimeStamp option \<Rightarrow> OutlineEditor
     \<Rightarrow> bool \<times> OutlineEditor" where
  "update c callbackFn timeStamp e =
     (let ((p, viewModelWasCloned), e3) = prepareDraft c callbackFn timeStamp e
      in if \<not> shouldUpdate c p e3 then (False, e3\<lparr>pendingViewModel := None\<rparr>)
         else if timeStamp = None then (True, commitPendingUpdates e3)
         else if viewModelWasCloned then (True, e3\<lparr>microtasks := microtasks e3 @ [CommitTask]\<rparr>)
         else (True, e3))"

text \<open>One turn of the microtask queue: the oldest queued task runs.\<close>

definition runMicrotask :: "OutlineEditor \<Rightarrow> OutlineEditor" where
  "runMicrotask e =
     (case microtasks e of
        [] \<Rightarrow> e
      | CommitTask # ts \<Rightarrow> commitPendingUpdates (e\<lparr>microtasks := ts\<rparr>))"


section \<open>Nodes and selection (OutlineNode, OutlineTextNode, OutlineSelection)\<close>

text \<open>
  The node classes and the selection class are not part of the sources at hand; the
  helpers of \<open>OutlineSelectionHelpers.js\<close> call their methods. Each method is modelled
  from the spec's description of the data model and of the selection model. A method
  takes the active view model (the source reaches it through a global) and the key of
  the node it is called on. A result \<open>None\<close> is a thrown error: an invariant violation
  or a key that the node map does not hold.
\<close>

text \<open>
  Modelled from the spec: \<open>getNodeByKey\<close>; lookup in the key-to-node map.
\<close>

definition getNodeByKey :: "ViewModel \<Rightarrow> NodeKey \<Rightarrow> OutlineNode option" where
  "getNodeByKey vm k = map_of (nodeMap vm) k"

text \<open>
  Modelled from the spec: \<open>getWritable\<close> followed by a field write; the node's entry in
  the draft's map is replaced and the key joins the dirty set.
\<close>

definition writeNode :: "NodeKey \<Rightarrow> OutlineNode \<Rightarrow> ViewModel \<Rightarrow> ViewModel" where
  "writeNode k n vm =
     vm\<lparr>nodeMap := AList.update k n (nodeMap vm),
        dirtyNodes := List.insert k (dirtyNodes vm)\<rparr>"

text \<open>Modelled from the spec: \<open>isTextNode\<close>; hashtag nodes are text nodes.\<close>

definition isTextNode :: "OutlineNode \<Rightarrow> bool" where
  "isTextNode n = (n_type n = TextT \<or> n_type n = HashtagT)"

text \<open>Modelled from the spec: \<open>isHashtagNode\<close> of \<open>outline/HashtagNode\<close>.\<close>

definition isHashtagNode :: "OutlineNode \<Rightarrow> bool" where
  "isHashtagNode n = (n_type n = HashtagT)"

text \<open>Modelled from the spec: \<open>isBlockNode\<close>; the root and the element containers.\<close>

definition isBlockNode :: "OutlineNode \<Rightarrow> bool" where
  "isBlockNode n = (n_type n = RootT \<or> n_type n = BlockT)"

text \<open>Modelled from the spec: \<open>isRootNode\<close> (\<open>node instanceof RootNode\<close>).\<close>

definition isRootNode :: "OutlineNode \<Rightarrow> bool" where
  "isRootNode n = (n_type n = RootT)"

text \<open>Modelled from the spec: \<open>isDecoratorNode\<close>.\<close>

definition isDecoratorNode :: "OutlineNode \<Rightarrow> bool" where
  "isDecoratorNode n = (n_type n = DecoratorT)"

text \<open>Modelled from the spec: \<open>shared/isImmutableOrInert\<close>.\<close>

definition isImmutableOrInert :: "OutlineNode \<Rightarrow> bool" where
  "isImmutableOrInert n = (n_immutable n \<or> n_inert n)"

text \<open>
  Modelled from the spec: \<open>TextNode.isSimpleText\<close>; a plain text node, neither a
  subclass nor immutable nor segmented.
\<close>

definition isSimpleText :: "OutlineNode \<Rightarrow> bool" where
  "isSimpleText n = (n_type n = TextT \<and> \<not> n_immutable n \<and> \<not> n_segmented n)"

text \<open>
  A predicate on a node that may be null: \<open>isTextNode(sibling)\<close> is false for \<open>null\<close>
  and for a key the map does not hold.
\<close>

definition nodeIs :: "(OutlineNode \<Rightarrow> bool) \<Rightarrow> ViewModel \<Rightarrow> NodeKey option \<Rightarrow> bool" where
  "nodeIs P vm ko =
     (case ko of None \<Rightarrow> False
      | Some k \<Rightarrow> (case getNodeByKey vm k of None \<Rightarrow> False | Some n \<Rightarrow> P n))"

text \<open>
  JavaScript's \<open>String.prototype.slice(start, end)\<close> on in-memory strings: a negative
  index counts from the end, indices are clamped to the length, and an absent \<open>end\<close> is
  the length.
\<close>

definition clampIndex :: "nat \<Rightarrow> int \<Rightarrow> nat" where
  "clampIndex len i = (if i < 0 then nat (max (int len + i) 0) else min (nat i) len)"

definition slice_str :: "string \<Rightarrow> int \<Rightarrow> int option \<Rightarrow> string" where
  "slice_str s i j =
     (let len = length s;
          a = clampIndex len i;
          b = (case j of None \<Rightarrow> len | Some e \<Rightarrow> clampIndex len e)
      in take (b - a) (drop a s))"

text \<open>\<open>Array.prototype.indexOf\<close>: the first index of the element, or -1.\<close>

fun indexOf :: "'a list \<Rightarrow> 'a \<Rightarrow> int" where
  "indexOf [] x = -1"
| "indexOf (y # ys) x = (if x = y then 0 else (let i = indexOf ys x in if i < 0 then -1 else i + 1))"

text \<open>An array read \<open>xs[i]\<close>: \<open>undefined\<close> out of range.\<close>

definition elementAt :: "'a list \<Rightarrow> int \<Rightarrow> 'a option" where
  "elementAt xs i = (if 0 \<le> i \<and> i < int (length xs) then Some (xs ! nat i) else None)"

text \<open>
  Modelled from the spec: \<open>getTextContent\<close>; the text of a text leaf, a newline for a
  line break, nothing for a decorator, and the concatenation over the children of a
  container. The recursion over the map is bounded by the number of its entries.
\<close>

fun getTextContentFrom :: "nat \<Rightarrow> ViewModel \<Rightarrow> NodeKey \<Rightarrow> string" where
  "getTextContentFrom 0 vm k = []"
| "getTextContentFrom (Suc d) vm k =
     (case getNodeByKey vm k of
        None \<Rightarrow> []
      | Some n \<Rightarrow>
          if isTextNode n then n_text n
          else if n_type n = LineBreakT then [CHR 0x0A]
          else if isBlockNode n then concat (map (getTextContentFrom d vm) (n_children n))
          else [])"

text \<open>
  Modelled from the spec: \<open>getTextContent\<close>, with the bound that covers every acyclic
  tree in the map.
\<close>

definition getTextContent :: "ViewModel \<Rightarrow> NodeKey \<Rightarrow> string" where
  "getTextContent vm k = getTextContentFrom (Suc (length (nodeMap vm))) vm k"

text \<open>Modelled from the spec: \<open>getTextContentSize\<close>; the length of the text content.\<close>

definition getTextContentSize :: "ViewModel \<Rightarrow> NodeKey \<Rightarrow> int" where
  "getTextContentSize vm k = int (length (getTextContent vm k))"

text \<open>Modelled from the spec: \<open>getParent\<close>; the parent relation, null for a detached node.\<close>

definition getParent :: "ViewModel \<Rightarrow> NodeKey \<Rightarrow> NodeKey option" where
  "getParent vm k =
     (case getNodeByKey vm k of
        None \<Rightarrow> None
      | Some n \<Rightarrow>
          (case n_parent n of
             None \<Rightarrow> None
           | Some p \<Rightarrow> (if getNodeByKey vm p = None then None else Some p)))"

text \<open>
  Modelled from the spec: \<open>getParentOrThrow\<close> and \<open>getParentBlockOrThrow\<close>; the parent,
  or a thrown error without one.
\<close>

definition getParentOrThrow :: "ViewModel \<Rightarrow> NodeKey \<Rightarrow> NodeKey option" where
  "getParentOrThrow vm k = getParent vm k"

text \<open>Modelled from the spec: \<open>getChildren\<close>; the ordered child sequence of a container.\<close>

definition getChildren :: "ViewModel \<Rightarrow> NodeKey \<Rightarrow> NodeKey list" where
  "getChildren vm k = (case getNodeByKey vm k of None \<Rightarrow> [] | Some n \<Rightarrow> n_children n)"

text \<open>Modelled from the spec: \<open>getChildAtIndex\<close>; the child at the index, or null.\<close>

definition getChildAtIndex :: "ViewModel \<Rightarrow> NodeKey \<Rightarrow> int \<Rightarrow> NodeKey option" where
  "getChildAtIndex vm k i = elementAt (getChildren vm k) i"

text \<open>
  Modelled from the spec: \<open>getIndexWithinParent\<close>; the sibling index, -1 without a
  parent.
\<close>

definition getIndexWithinParent :: "ViewModel \<Rightarrow> NodeKey \<Rightarrow> int" where
  "getIndexWithinParent vm k =
     (case getParent vm k of None \<Rightarrow> -1 | Some p \<Rightarrow> indexOf (getChildren vm p) k)"

text \<open>Modelled from the spec: \<open>getPreviousSibling\<close>; the sibling before, or null.\<close>

definition getPreviousSibling :: "ViewModel \<Rightarrow> NodeKey \<Rightarrow> NodeKey option" where
  "getPreviousSibling vm k =
     (case getParent vm k of
        None \<Rightarrow> None
      | Some p \<Rightarrow> (let i = indexOf (getChildren vm p) k
                   in if i < 0 then None else elementAt (getChildren vm p) (i - 1)))"

text \<open>Modelled from the spec: \<open>getNextSibling\<close>; the sibling after, or null.\<close>

definition getNextSibling :: "ViewModel \<Rightarrow> NodeKey \<Rightarrow> NodeKey option" where
  "getNextSibling vm k =
     (case getParent vm k of
        None \<Rightarrow> None
      | Some p \<Rightarrow> (let i = indexOf (getChildren vm p) k
                   in if i < 0 then None else elementAt (getChildren vm p) (i + 1)))"

text \<open>
  Modelled from the spec: \<open>getParentKeys\<close>; the keys on the parent chain, nearest
  first. The walk is bounded by the number of entries of the map.
\<close>

fun parentKeysFrom :: "nat \<Rightarrow> ViewModel \<Rightarrow> NodeKey \<Rightarrow> NodeKey list" where
  "parentKeysFrom 0 vm k = []"
| "parentKeysFrom (Suc d) vm k =
     (case getParent vm k of None \<Rightarrow> [] | Some p \<Rightarrow> p # parentKeysFrom d vm p)"

text \<open>
  Modelled from the spec: \<open>getParentKeys\<close>, with the bound that covers every acyclic
  parent chain in the map.
\<close>

definition getParentKeys :: "ViewModel \<Rightarrow> NodeKey \<Rightarrow> NodeKey list" where
  "getParentKeys vm k = parentKeysFrom (length (nodeMap vm)) vm k"

text \<open>
  Modelled from the spec: \<open>isAttached\<close>; the parent chain of the node ends at the root.
\<close>

definition isAttached :: "ViewModel \<Rightarrow> NodeKey \<Rightarrow> bool" where
  "isAttached vm k =
     (nodeIs isRootNode vm (Some k)
      \<or> (\<exists>a \<in> set (getParentKeys vm k). nodeIs isRootNode vm (Some a)))"


text \<open>
  Modelled from the spec: key assignment on creation; a key that no entry of the map
  uses.
\<close>

definition freshKey :: "ViewModel \<Rightarrow> NodeKey" where
  "freshKey vm = Suc (fold max (map fst (nodeMap vm)) 0)"

text \<open>
  Modelled from the spec: the \<open>TextNode\<close> that \<open>createTextNode(text)\<close> constructs; a
  plain text leaf of the normal mutability class, with no format, no style and no parent,
  that takes text at its end.
\<close>

definition plainTextNode :: "string \<Rightarrow> OutlineNode" where
  "plainTextNode t =
     \<lparr>n_type = TextT, n_parent = None, n_children = [], n_text = t, n_format = 0,
      n_style = [], n_immutable = False, n_segmented = False, n_inert = False,
      n_composing = False, n_canInsertTextAtEnd = True, n_canBeEmpty = False\<rparr>"

text \<open>
  Modelled from the spec: \<open>createTextNode(text)\<close>; the new leaf is registered in the
  draft under a new key, which is returned.
\<close>

definition createTextNode :: "string \<Rightarrow> ViewModel \<Rightarrow> NodeKey \<times> ViewModel" where
  "createTextNode t vm = (freshKey vm, writeNode (freshKey vm) (plainTextNode t) vm)"

text \<open>
  Modelled from the spec: taking a node out of its parent's child sequence; the node
  stays in the map, without a parent, until the garbage collection of the commit.
\<close>

definition detach :: "NodeKey \<Rightarrow> ViewModel \<Rightarrow> ViewModel option" where
  "detach k vm =
     do {
       n \<leftarrow> getNodeByKey vm k;
       (case getParent vm k of
          None \<Rightarrow> Some vm
        | Some p \<Rightarrow>
            do {
              pn \<leftarrow> getNodeByKey vm p;
              let vm1 = writeNode p (pn\<lparr>n_children := removeAll k (n_children pn)\<rparr>) vm;
              Some (writeNode k (n\<lparr>n_parent := None\<rparr>) vm1)
            })
     }"

text \<open>
  Modelled from the spec: \<open>remove\<close>; the node leaves its parent. On the root it throws
  (see \<open>RootNode.remove\<close>).
\<close>

definition remove :: "NodeKey \<Rightarrow> ViewModel \<Rightarrow> ViewModel option" where
  "remove k vm =
     do {
       n \<leftarrow> getNodeByKey vm k;
       if isRootNode n then None else detach k vm
     }"

text \<open>
  Modelled from the spec: the common part of \<open>insertAfter\<close>, \<open>insertBefore\<close>, \<open>append\<close>
  and \<open>replace\<close>; the node leaves its old parent and enters the child sequence of the
  new one at a position computed from the sequence without the node.
\<close>

definition attach ::
  "NodeKey \<Rightarrow> NodeKey \<Rightarrow> (NodeKey list \<Rightarrow> NodeKey list) \<Rightarrow> ViewModel \<Rightarrow> ViewModel option" where
  "attach p k place vm =
     do {
       vm1 \<leftarrow> detach k vm;
       pn \<leftarrow> getNodeByKey vm1 p;
       n \<leftarrow> getNodeByKey vm1 k;
       let vm2 = writeNode p (pn\<lparr>n_children := place (n_children pn)\<rparr>) vm1;
       Some (writeNode k (n\<lparr>n_parent := Some p\<rparr>) vm2)
     }"

text \<open>
  Modelled from the spec: the position of \<open>insertAfter\<close>; behind the target in the
  child sequence.
\<close>

definition placeAfter :: "NodeKey \<Rightarrow> NodeKey \<Rightarrow> NodeKey list \<Rightarrow> NodeKey list" where
  "placeAfter target k cs =
     (let i = indexOf cs target
      in if i < 0 then cs @ [k] else take (nat i + 1) cs @ [k] @ drop (nat i + 1) cs)"

text \<open>
  Modelled from the spec: the position of \<open>insertBefore\<close>; before the target in the
  child sequence.
\<close>

definition placeBefore :: "NodeKey \<Rightarrow> NodeKey \<Rightarrow> NodeKey list \<Rightarrow> NodeKey list" where
  "placeBefore target k cs =
     (let i = indexOf cs target
      in if i < 0 then cs @ [k] else take (nat i) cs @ [k] @ drop (nat i) cs)"

text \<open>
  Modelled from the spec: \<open>insertAfter\<close>; the inserted node leaves its old parent and
  becomes the next sibling of the target. It returns the inserted node. On the root it
  throws (see \<open>RootNode.insertAfter\<close>).
\<close>

definition insertAfter :: "NodeKey \<Rightarrow> NodeKey \<Rightarrow> ViewModel \<Rightarrow> ViewModel option" where
  "insertAfter target k vm =
     do {
       tn \<leftarrow> getNodeByKey vm target;
       if isRootNode tn then None
       else do {
         p \<leftarrow> getParentOrThrow vm target;
         attach p k (placeAfter target k) vm
       }
     }"

text \<open>
  Modelled from the spec: \<open>insertBefore\<close>; as \<open>insertAfter\<close>, before the target.
\<close>

definition insertBefore :: "NodeKey \<Rightarrow> NodeKey \<Rightarrow> ViewModel \<Rightarrow> ViewModel option" where
  "insertBefore target k vm =
     do {
       tn \<leftarrow> getNodeByKey vm target;
       if isRootNode tn then None
       else do {
         p \<leftarrow> getParentOrThrow vm target;
         attach p k (placeBefore target k) vm
       }
     }"

text \<open>
  Modelled from the spec: \<open>BlockNode.append\<close>; the node becomes the last child of the
  container. The root accepts only containers (see \<open>RootNode.append\<close>).
\<close>

definition append_node :: "NodeKey \<Rightarrow> NodeKey \<Rightarrow> ViewModel \<Rightarrow> ViewModel option" where
  "append_node block k vm =
     do {
       bn \<leftarrow> getNodeByKey vm block;
       n \<leftarrow> getNodeByKey vm k;
       if \<not> isBlockNode bn \<or> (isRootNode bn \<and> \<not> isBlockNode n) then None
       else attach block k (\<lambda>cs. cs @ [k]) vm
     }"

text \<open>
  Modelled from the spec: \<open>replace\<close>; the replacement takes the place of the node in
  its parent, the node is detached. On the root it throws (see \<open>RootNode.replace\<close>).
\<close>

definition replace :: "NodeKey \<Rightarrow> NodeKey \<Rightarrow> ViewModel \<Rightarrow> ViewModel option" where
  "replace target k vm =
     do {
       tn \<leftarrow> getNodeByKey vm target;
       if isRootNode tn then None
       else do {
         p \<leftarrow> getParentOrThrow vm target;
         vm1 \<leftarrow> attach p k (placeBefore target k) vm;
         detach target vm1
       }
     }"

text \<open>
  Modelled from the spec: \<open>TextNode.setFormat\<close>; the format of the writable node is
  set.
\<close>

definition setFormat :: "NodeKey \<Rightarrow> TextFormat \<Rightarrow> ViewModel \<Rightarrow> ViewModel option" where
  "setFormat k f vm =
     do { n \<leftarrow> getNodeByKey vm k; Some (writeNode k (n\<lparr>n_format := f\<rparr>) vm) }"

text \<open>
  Modelled from the spec: \<open>TextNode.setStyle\<close>; the style string of the writable node is
  set.
\<close>

definition setStyle :: "NodeKey \<Rightarrow> string \<Rightarrow> ViewModel \<Rightarrow> ViewModel option" where
  "setStyle k st vm =
     do { n \<leftarrow> getNodeByKey vm k; Some (writeNode k (n\<lparr>n_style := st\<rparr>) vm) }"

text \<open>
  Modelled from the spec: \<open>setTextContent\<close>; a node marked immutable or inert rejects
  in-place text mutation.
\<close>

definition setTextContent :: "NodeKey \<Rightarrow> string \<Rightarrow> ViewModel \<Rightarrow> ViewModel option" where
  "setTextContent k t vm =
     do {
       n \<leftarrow> getNodeByKey vm k;
       if \<not> isTextNode n \<or> isImmutableOrInert n then None
       else Some (writeNode k (n\<lparr>n_text := t\<rparr>) vm)
     }"

text \<open>
  Modelled from the spec: \<open>Selection.setTextNodeRange\<close> and \<open>Point.set\<close>; both points
  are set and the selection is dirty. Without a selection a new one is made.
\<close>

definition setSelectionRange :: "Point \<Rightarrow> Point \<Rightarrow> ViewModel \<Rightarrow> ViewModel" where
  "setSelectionRange a f vm =
     vm\<lparr>selection :=
          Some (case selection vm of
                  None \<Rightarrow> \<lparr>anchor = a, focus = f, textFormat = 0, isDirty = True\<rparr>
                | Some s \<Rightarrow> s\<lparr>anchor := a, focus := f, isDirty := True\<rparr>)\<rparr>"

text \<open>
  Modelled from the spec: \<open>select(anchorOffset, focusOffset)\<close> of text nodes and of
  containers; an absent offset is the end of the text, or the child count. On the root it
  throws (see \<open>RootNode.select\<close>).
\<close>

definition select :: "NodeKey \<Rightarrow> int option \<Rightarrow> int option \<Rightarrow> ViewModel \<Rightarrow> ViewModel option" where
  "select k anchorOffset focusOffset vm =
     do {
       n \<leftarrow> getNodeByKey vm k;
       if isRootNode n then None
       else if isTextNode n then
         (let lastOffset = int (length (n_text n));
              a = (case anchorOffset of None \<Rightarrow> lastOffset | Some i \<Rightarrow> i);
              f = (case focusOffset of None \<Rightarrow> lastOffset | Some i \<Rightarrow> i)
          in Some (setSelectionRange \<lparr>p_key = k, p_offset = a, p_type = TextP\<rparr>
                                     \<lparr>p_key = k, p_offset = f, p_type = TextP\<rparr> vm))
       else if isBlockNode n then
         (let childrenCount = int (length (n_children n));
              a = (case anchorOffset of None \<Rightarrow> childrenCount | Some i \<Rightarrow> i);
              f = (case focusOffset of None \<Rightarrow> childrenCount | Some i \<Rightarrow> i)
          in Some (setSelectionRange \<lparr>p_key = k, p_offset = a, p_type = BlockP\<rparr>
                                     \<lparr>p_key = k, p_offset = f, p_type = BlockP\<rparr> vm))
       else None
     }"

text \<open>
  Modelled from the spec: \<open>spliceText(offset, delCount, newText, moveSelection)\<close>; the
  character range is replaced by the new text in place, and with \<open>moveSelection\<close> the
  selection collapses behind the inserted text. An immutable or inert node rejects it.
\<close>

definition spliceText ::
  "NodeKey \<Rightarrow> int \<Rightarrow> int \<Rightarrow> string \<Rightarrow> bool \<Rightarrow> ViewModel \<Rightarrow> ViewModel option" where
  "spliceText k offset delCount newText moveSelection vm =
     do {
       n \<leftarrow> getNodeByKey vm k;
       if \<not> isTextNode n \<or> isImmutableOrInert n then None
       else
         (let t = n_text n;
              updatedText = slice_str t 0 (Some offset) @ newText @ slice_str t (offset + delCount) None;
              newOffset = offset + int (length newText);
              vm1 = (if moveSelection \<and> selection vm \<noteq> None
                     then setSelectionRange \<lparr>p_key = k, p_offset = newOffset, p_type = TextP\<rparr>
                                            \<lparr>p_key = k, p_offset = newOffset, p_type = TextP\<rparr> vm
                     else vm)
          in Some (writeNode k (n\<lparr>n_text := updatedText\<rparr>) vm1))
     }"


text \<open>
  Modelled from the spec: the parts of \<open>splitText\<close>; the pieces of a text between the
  cuts, the cuts in increasing order.
\<close>

fun partsOf :: "nat list \<Rightarrow> nat \<Rightarrow> string \<Rightarrow> string list" where
  "partsOf [] s t = [drop s t]"
| "partsOf (c # cs) s t = take (c - s) (drop s t) # partsOf cs c t"

text \<open>
  Modelled from the spec: the cuts of \<open>splitText\<close>; the offsets that lie strictly inside
  the text, each once, in increasing order.
\<close>

definition cutsOf :: "int list \<Rightarrow> string \<Rightarrow> nat list" where
  "cutsOf offsets t =
     sort (remdups (map nat (filter (\<lambda>i. 0 < i \<and> i < int (length t)) offsets)))"

text \<open>
  Modelled from the spec: the selection handling of \<open>splitText\<close>; a text point of the
  split node that lies in a part that moved follows the part to its new node.
\<close>

definition movePoint :: "NodeKey \<Rightarrow> int \<Rightarrow> int \<Rightarrow> NodeKey \<Rightarrow> Point \<Rightarrow> Point" where
  "movePoint k textSize nextTextSize sibling pt =
     (if p_key pt = k \<and> p_type pt = TextP \<and> textSize < p_offset pt \<and> p_offset pt \<le> nextTextSize
      then pt\<lparr>p_key := sibling, p_offset := p_offset pt - textSize\<rparr> else pt)"

text \<open>
  Modelled from the spec: the new nodes of \<open>splitText\<close>; one text leaf for every part
  behind the first, with the format, the style and the parent of the split node.
\<close>

fun splitSiblings ::
  "NodeKey \<Rightarrow> OutlineNode \<Rightarrow> int \<Rightarrow> string list \<Rightarrow> ViewModel \<Rightarrow> NodeKey list \<times> ViewModel" where
  "splitSiblings k n textSize [] vm = ([], vm)"
| "splitSiblings k n textSize (part # parts) vm =
     (let (sibling, vm1) = createTextNode part vm;
          vm2 = writeNode sibling
                  ((plainTextNode part)\<lparr>n_format := n_format n, n_style := n_style n,
                                        n_parent := n_parent n\<rparr>) vm1;
          nextTextSize = textSize + int (length part);
          vm3 = (case selection vm2 of
                   None \<Rightarrow> vm2
                 | Some s \<Rightarrow>
                     vm2\<lparr>selection :=
                           Some (s\<lparr>anchor := movePoint k textSize nextTextSize sibling (anchor s),
                                   focus := movePoint k textSize nextTextSize sibling (focus s)\<rparr>)\<rparr>);
          (rest, vm4) = splitSiblings k n nextTextSize parts vm3
      in (sibling # rest, vm4))"

text \<open>
  Modelled from the spec: \<open>TextNode.splitText(...offsets)\<close>; the text is cut at the
  offsets that lie strictly inside it. The first part stays in the node, every further
  part is a new text leaf placed behind it in order. It returns the nodes of the parts; an
  empty text gives none, a text without a cut the node itself. An immutable node rejects
  it.
\<close>

definition splitText :: "NodeKey \<Rightarrow> int list \<Rightarrow> ViewModel \<Rightarrow> (NodeKey list \<times> ViewModel) option" where
  "splitText k offsets vm =
     do {
       n \<leftarrow> getNodeByKey vm k;
       if \<not> isTextNode n \<or> n_immutable n then None
       else if n_text n = [] then Some ([], vm)
       else
         (case partsOf (cutsOf offsets (n_text n)) 0 (n_text n) of
            [] \<Rightarrow> Some ([], vm)
          | firstPart # parts \<Rightarrow>
              if parts = [] then Some ([k], vm)
              else do {
                p \<leftarrow> getParentOrThrow vm k;
                let vm1 = writeNode k (n\<lparr>n_text := firstPart\<rparr>) vm;
                let (siblings, vm2) = splitSiblings k n (int (length firstPart)) parts vm1;
                pn \<leftarrow> getNodeByKey vm2 p;
                let i = indexOf (n_children pn) k;
                let cs = (if i < 0 then n_children pn
                          else take (nat i) (n_children pn) @ (k # siblings)
                                 @ drop (nat i + 1) (n_children pn));
                Some (k # siblings, writeNode p (pn\<lparr>n_children := cs\<rparr>) vm2)
              })
     }"

text \<open>
  Modelled from the spec: document order; the leaves below a node from left to right,
  an empty container counting as a leaf. The descent is bounded by the number of entries
  of the map.
\<close>

fun leavesFrom :: "nat \<Rightarrow> ViewModel \<Rightarrow> NodeKey \<Rightarrow> NodeKey list" where
  "leavesFrom 0 vm k = []"
| "leavesFrom (Suc d) vm k =
     (case getNodeByKey vm k of
        None \<Rightarrow> []
      | Some n \<Rightarrow>
          if isBlockNode n \<and> n_children n \<noteq> []
          then concat (map (leavesFrom d vm) (n_children n))
          else [k])"

text \<open>
  Modelled from the spec: the leaves of the document in document order, from the root.
\<close>

definition documentLeaves :: "ViewModel \<Rightarrow> NodeKey list" where
  "documentLeaves vm = leavesFrom (Suc (length (nodeMap vm))) vm ROOT_KEY"

text \<open>
  Modelled from the spec: \<open>Point.getNode\<close> resolved to a leaf; a text point denotes its
  text leaf, a block point the first leaf of the child at its index (the last leaf of the
  container when the index is past the end, the container itself when it is empty).
\<close>

definition pointLeaf :: "ViewModel \<Rightarrow> Point \<Rightarrow> NodeKey option" where
  "pointLeaf vm pt =
     (if p_type pt = TextP then Some (p_key pt)
      else (let cs = getChildren vm (p_key pt);
                d = Suc (length (nodeMap vm))
            in if cs = [] then Some (p_key pt)
               else (case elementAt cs (p_offset pt) of
                       Some c \<Rightarrow> (case leavesFrom d vm c of [] \<Rightarrow> None | l # _ \<Rightarrow> Some l)
                     | None \<Rightarrow> (case rev (leavesFrom d vm (p_key pt)) of
                                  [] \<Rightarrow> None | l # _ \<Rightarrow> Some l))))"

text \<open>
  Modelled from the spec: \<open>Selection.isCollapsed\<close>; the anchor point equals the focus
  point (same key, offset, type).
\<close>

definition isCollapsed :: "Selection \<Rightarrow> bool" where
  "isCollapsed s = (anchor s = focus s)"

text \<open>
  Modelled from the spec: \<open>Point.isBefore\<close>; the point's position in document order
  precedes the other's: the offsets decide within one node, the order of the leaves
  otherwise.
\<close>

definition isBefore :: "ViewModel \<Rightarrow> Point \<Rightarrow> Point \<Rightarrow> bool" where
  "isBefore vm a b =
     (if p_key a = p_key b then p_offset a < p_offset b
      else (case (pointLeaf vm a, pointLeaf vm b) of
              (Some la, Some lb) \<Rightarrow>
                 indexOf (documentLeaves vm) la < indexOf (documentLeaves vm) lb
            | _ \<Rightarrow> False))"

text \<open>
  Modelled from the spec: \<open>Selection.getNodes\<close>; the leaves spanned by anchor and focus
  in document order, both boundary leaves included; the one leaf for a selection within
  a single leaf; nothing when a point resolves to no leaf of the document.
\<close>

definition getNodes :: "ViewModel \<Rightarrow> Selection \<Rightarrow> NodeKey list" where
  "getNodes vm s =
     (case (pointLeaf vm (anchor s), pointLeaf vm (focus s)) of
        (Some la, Some lb) \<Rightarrow>
          (let ls = documentLeaves vm;
               i = indexOf ls la;
               j = indexOf ls lb
           in if i < 0 \<or> j < 0 then []
              else take (nat (max i j) - nat (min i j) + 1) (drop (nat (min i j)) ls))
      | _ \<Rightarrow> [])"

text \<open>
  The table \<open>TEXT_TYPE_TO_FORMAT\<close> from format types to their bit is not part of the
  sources at hand: format types are their names, and the functions that need the table
  take it as a parameter.
\<close>

type_synonym TextFormatType = string

type_synonym FormatTable = "TextFormatType \<Rightarrow> TextFormat"

text \<open>
  Modelled from the spec: \<open>Selection.toggleTextFormatType\<close>; flips the next-insert
  format bit of the format type, without touching existing text.
\<close>

definition toggleTextFormatType :: "FormatTable \<Rightarrow> TextFormatType \<Rightarrow> Selection \<Rightarrow> Selection" where
  "toggleTextFormatType table formatType s =
     s\<lparr>textFormat := textFormat s XOR table formatType, isDirty := True\<rparr>"

text \<open>
  Modelled from the spec: \<open>TextNode.getTextNodeFormat(type, alignWithFormat)\<close>; the
  format the node would get: with \<open>null\<close> its own format with the bit toggled, with a
  running format its own format with the bit taken from the running format.
\<close>

definition getTextNodeFormat ::
  "FormatTable \<Rightarrow> OutlineNode \<Rightarrow> TextFormatType \<Rightarrow> TextFormat option \<Rightarrow> TextFormat" where
  "getTextNodeFormat table n formatType alignWithFormat =
     (case alignWithFormat of
        None \<Rightarrow> n_format n XOR table formatType
      | Some f \<Rightarrow> (n_format n AND NOT (table formatType)) OR (f AND table formatType))"


section \<open>Selection helpers (OutlineSelectionHelpers.js)\<close>

text \<open>
  The helpers receive the selection object of the active view model, which the node
  methods they call (\<open>select\<close>, \<open>spliceText\<close>) mutate too: the model reads and writes the
  selection of the view model it threads. Node objects are denoted by their keys, so
  \<open>a.is(b)\<close>, \<open>a === b\<close> and membership in a set of nodes compare keys.
\<close>

text \<open>\<open>transferStartingBlockPointToTextPoint(start, end)\<close>, lines 1092-1114;
  \<open>startIsAnchor\<close> tells which point of the selection is \<open>start\<close>.\<close>

definition transferStartingBlockPointToTextPoint :: "bool \<Rightarrow> ViewModel \<Rightarrow> ViewModel option" where
  "transferStartingBlockPointToTextPoint startIsAnchor vm =
     do {
       s \<leftarrow> selection vm;
       let start = (if startIsAnchor then anchor s else focus s);
       let endP = (if startIsAnchor then focus s else anchor s);
       let block = p_key start;
       let placementNode = getChildAtIndex vm block (p_offset start);
       let (textNode, vm1) = createTextNode [] vm;
       vm2 \<leftarrow> (case placementNode of
                 None \<Rightarrow> append_node block textNode vm1
               | Some pl \<Rightarrow> insertBefore pl textNode vm1);
       let endP' = (if p_type endP = BlockP \<and> block = p_key endP
                    then (if p_offset endP = p_offset start
                          then \<lparr>p_key = textNode, p_offset = 0, p_type = TextP\<rparr>
                          else endP\<lparr>p_offset := p_offset endP + 1\<rparr>)
                    else endP);
       let start' = \<lparr>p_key = textNode, p_offset = 0, p_type = TextP\<rparr>;
       Some (vm2\<lparr>selection :=
                   Some (if startIsAnchor
                         then s\<lparr>anchor := start', focus := endP', isDirty := True\<rparr>
                         else s\<lparr>anchor := endP', focus := start', isDirty := True\<rparr>)\<rparr>)
     }"

text \<open>
  Lines 1149-1151 and 1165-1167: the sibling cannot take the text (it is no text node,
  or immutable or inert, or segmented).
\<close>

definition unusableSibling :: "ViewModel \<Rightarrow> NodeKey option \<Rightarrow> bool" where
  "unusableSibling vm sibling =
     (\<not> nodeIs isTextNode vm sibling \<or> nodeIs isImmutableOrInert vm sibling
      \<or> nodeIs n_segmented vm sibling)"

text \<open>
  Lines 1140-1183 of \<open>insertText\<close>: a first node that takes no text at the caret. The
  result is the first node to go on with, or \<open>Retry\<close> where the source calls
  \<open>insertText\<close> again and returns.
\<close>

datatype Boundary = Retry ViewModel | Continue NodeKey ViewModel

definition insertTextBoundary ::
  "string \<Rightarrow> NodeKey \<Rightarrow> OutlineNode \<Rightarrow> int \<Rightarrow> int \<Rightarrow> Selection \<Rightarrow> ViewModel \<Rightarrow> Boundary option" where
  "insertTextBoundary text firstNode fn startOffset firstNodeTextLength s vm =
     (if n_segmented fn \<or> n_immutable fn \<or> \<not> n_canInsertTextAtEnd fn then
        (let offset = startOffset in
         if isCollapsed s \<and> offset = firstNodeTextLength then
           do {
             (nextSibling, vm1) \<leftarrow>
               (if unusableSibling vm (getNextSibling vm firstNode)
                then (let (t, vmc) = createTextNode [] vm
                      in do { vmi \<leftarrow> insertAfter firstNode t vmc; Some (t, vmi) })
                else do { k \<leftarrow> getNextSibling vm firstNode; Some (k, vm) });
             vm2 \<leftarrow> select nextSibling (Some 0) (Some 0) vm1;
             Some (if text \<noteq> [] then Retry vm2 else Continue nextSibling vm2)
           }
         else if isCollapsed s \<and> offset = 0 then
           do {
             (prevSibling, vm1) \<leftarrow>
               (if unusableSibling vm (getPreviousSibling vm firstNode)
                then (let (t, vmc) = createTextNode [] vm
                      in do { vmi \<leftarrow> insertBefore firstNode t vmc; Some (t, vmi) })
                else do { k \<leftarrow> getPreviousSibling vm firstNode; Some (k, vm) });
             vm2 \<leftarrow> select prevSibling None None vm1;
             Some (if text \<noteq> [] then Retry vm2 else Continue prevSibling vm2)
           }
         else if n_segmented fn \<and> offset \<noteq> firstNodeTextLength then
           (let (textNode, vmc) = createTextNode (getTextContent vm firstNode) vm
            in do { vm1 \<leftarrow> replace firstNode textNode vmc; Some (Continue textNode vm1) })
         else Some (Continue firstNode vm))
      else Some (Continue firstNode vm))"

text \<open>
  Lines 1207-1211, and again 1308-1312: after the splice an empty first node is removed;
  otherwise, when the node is composing and the anchor is a text point, the anchor's
  offset is decreased by the length of the text.
\<close>

definition afterSplice :: "NodeKey \<Rightarrow> string \<Rightarrow> ViewModel \<Rightarrow> ViewModel option" where
  "afterSplice firstNode text vm =
     do {
       fn \<leftarrow> getNodeByKey vm firstNode;
       if getTextContent vm firstNode = [] then remove firstNode vm
       else
         (case selection vm of
            None \<Rightarrow> (if n_composing fn then None else Some vm)
          | Some s \<Rightarrow>
              if n_composing fn \<and> p_type (anchor s) = TextP
              then Some (vm\<lparr>selection :=
                     Some (s\<lparr>anchor := (anchor s)\<lparr>p_offset := p_offset (anchor s) - int (length text)\<rparr>\<rparr>)\<rparr>)
              else Some vm)
     }"

text \<open>Lines 1185-1211: the selection lies in one node.\<close>

definition insertTextSingle ::
  "string \<Rightarrow> NodeKey \<Rightarrow> int \<Rightarrow> int \<Rightarrow> TextFormat \<Rightarrow> ViewModel \<Rightarrow> ViewModel option" where
  "insertTextSingle text firstNode startOffset endOffset textFormat0 vm =
     do {
       fn \<leftarrow> getNodeByKey vm firstNode;
       if isImmutableOrInert fn then remove firstNode vm
       else if startOffset = endOffset \<and> n_format fn \<noteq> textFormat0
               \<and> getTextContent vm firstNode \<noteq> [] then
         do {
           (parts, vm1) \<leftarrow> splitText firstNode [startOffset] vm;
           targetNode \<leftarrow> elementAt parts 0;
           let (textNode, vm2) = createTextNode text vm1;
           vm3 \<leftarrow> setFormat textNode textFormat0 vm2;
           vm4 \<leftarrow> insertAfter targetNode textNode vm3;
           select textNode None None vm4
         }
       else
         do {
           vm1 \<leftarrow> (if startOffset = endOffset \<and> n_format fn \<noteq> textFormat0
                   then setFormat firstNode textFormat0 vm else Some vm);
           vm2 \<leftarrow> spliceText firstNode startOffset (endOffset - startOffset) text True vm1;
           afterSplice firstNode text vm2
         }
     }"

text \<open>
  Lines 1226-1249: the last node is trimmed, removed or kept. The result is the last
  node (replaced when it was segmented), the keys marked for keeping, and the view model.
\<close>

definition trimLastNode ::
  "Point \<Rightarrow> NodeKey \<Rightarrow> NodeKey list \<Rightarrow> ViewModel \<Rightarrow> (NodeKey \<times> NodeKey list \<times> ViewModel) option" where
  "trimLastNode endPoint lastNode marked vm =
     do {
       ln \<leftarrow> getNodeByKey vm lastNode;
       let endOffset = p_offset endPoint;
       if (p_type endPoint = TextP \<and> (endOffset \<noteq> 0 \<or> getTextContent vm lastNode = []))
          \<or> (p_type endPoint = BlockP \<and> getIndexWithinParent vm lastNode < endOffset)
       then
         (if isTextNode ln \<and> \<not> isImmutableOrInert ln \<and> endOffset \<noteq> getTextContentSize vm lastNode
          then do {
            (lastNode1, vm1) \<leftarrow>
              (if n_segmented ln
               then (let (textNode, vmc) = createTextNode (getTextContent vm lastNode) vm
                     in do { vmr \<leftarrow> replace lastNode textNode vmc; Some (textNode, vmr) })
               else Some (lastNode, vm));
            vm2 \<leftarrow> spliceText lastNode1 0 endOffset [] False vm1;
            Some (lastNode1, List.insert lastNode1 marked, vm2)
          }
          else do { vm1 \<leftarrow> remove lastNode vm; Some (lastNode, marked, vm1) })
       else Some (lastNode, List.insert lastNode marked, vm)
     }"

text \<open>
  Lines 1258-1277: the children of the last block from the last one down to the first
  node (the list is given in that order); a child that is selected and is not the last
  node is removed, the others move behind the first node when the blocks differ.
\<close>

fun moveOrRemoveChildren ::
  "NodeKey \<Rightarrow> NodeKey \<Rightarrow> NodeKey list \<Rightarrow> bool \<Rightarrow> NodeKey list \<Rightarrow> ViewModel \<Rightarrow> ViewModel option" where
  "moveOrRemoveChildren firstNode lastNode selectedNodes blocksEqual [] vm = Some vm"
| "moveOrRemoveChildren firstNode lastNode selectedNodes blocksEqual (child # rest) vm =
     (if child = firstNode then Some vm
      else do {
        vm1 \<leftarrow>
          (if isAttached vm child then
             (if child \<notin> set selectedNodes \<or> child = lastNode
              then (if \<not> blocksEqual then insertAfter firstNode child vm else Some vm)
              else remove child vm)
           else Some vm);
        moveOrRemoveChildren firstNode lastNode selectedNodes blocksEqual rest vm1
      })"

text \<open>
  Lines 1283-1296: up the parent chain of the last block (given nearest first, the last
  block at its head), a parent that is empty or ends in the parent unmarked last is
  unmarked.
\<close>

fun unmarkEmptiedParents ::
  "ViewModel \<Rightarrow> NodeKey list \<Rightarrow> NodeKey option \<Rightarrow> NodeKey list \<Rightarrow> NodeKey list" where
  "unmarkEmptiedParents vm [] lastRemovedParent marked = marked"
| "unmarkEmptiedParents vm (parent # up) lastRemovedParent marked =
     (let children = getChildren vm parent in
      if children = [] \<or> (lastRemovedParent \<noteq> None \<and> Some (last children) = lastRemovedParent)
      then unmarkEmptiedParents vm up (Some parent) (removeAll parent marked)
      else unmarkEmptiedParents vm up lastRemovedParent marked)"

text \<open>Lines 1301-1317: the splice into the first node, or its selection or removal.\<close>

definition spliceFirstNode ::
  "string \<Rightarrow> NodeKey \<Rightarrow> int \<Rightarrow> int \<Rightarrow> ViewModel \<Rightarrow> ViewModel option" where
  "spliceFirstNode text firstNode startOffset firstNodeTextLength vm =
     do {
       fn \<leftarrow> getNodeByKey vm firstNode;
       if \<not> isImmutableOrInert fn then
         do {
           vm1 \<leftarrow> spliceText firstNode startOffset (firstNodeTextLength - startOffset) text True vm;
           afterSplice firstNode text vm1
         }
       else if startOffset = firstNodeTextLength then select firstNode None None vm
       else remove firstNode vm
     }"

text \<open>Lines 1320-1325: the selected nodes behind the first that are not marked are removed.\<close>

fun removeUnmarked :: "NodeKey list \<Rightarrow> NodeKey list \<Rightarrow> ViewModel \<Rightarrow> ViewModel option" where
  "removeUnmarked marked [] vm = Some vm"
| "removeUnmarked marked (selectedNode # rest) vm =
     do {
       vm1 \<leftarrow> (if selectedNode \<notin> set marked then remove selectedNode vm else Some vm);
       removeUnmarked marked rest vm1
     }"

text \<open>\<open>isBlockNode(node) ? node : node.getParentOrThrow()\<close>, lines 1219-1224.\<close>

definition blockOf :: "ViewModel \<Rightarrow> NodeKey \<Rightarrow> NodeKey option" where
  "blockOf vm k =
     do { n \<leftarrow> getNodeByKey vm k; if isBlockNode n then Some k else getParentOrThrow vm k }"

text \<open>Lines 1212-1326: the selection spans several nodes.\<close>

definition insertTextMulti ::
  "string \<Rightarrow> NodeKey list \<Rightarrow> NodeKey \<Rightarrow> int \<Rightarrow> Point \<Rightarrow> int \<Rightarrow> ViewModel \<Rightarrow> ViewModel option" where
  "insertTextMulti text selectedNodes firstNode startOffset endPoint firstNodeTextLength vm =
     do {
       lastNode0 \<leftarrow> elementAt selectedNodes (int (length selectedNodes) - 1);
       let marked0 = remdups (getParentKeys vm firstNode @ getParentKeys vm lastNode0);
       firstBlock \<leftarrow> blockOf vm firstNode;
       lastBlock \<leftarrow> blockOf vm lastNode0;
       (lastNode, marked1, vm1) \<leftarrow> trimLastNode endPoint lastNode0 marked0 vm;
       let lastNodeChildren = getChildren vm1 lastBlock;
       let firstAndLastBlocksAreEqual = (firstBlock = lastBlock);
       vm2 \<leftarrow> moveOrRemoveChildren firstNode lastNode selectedNodes firstAndLastBlocksAreEqual
                (rev lastNodeChildren) vm1;
       let marked2 = (if \<not> firstAndLastBlocksAreEqual
                      then unmarkEmptiedParents vm2 (lastBlock # getParentKeys vm2 lastBlock) None marked1
                      else marked1);
       vm3 \<leftarrow> spliceFirstNode text firstNode startOffset firstNodeTextLength vm2;
       removeUnmarked marked2 (drop 1 selectedNodes) vm3
     }"

text \<open>
  \<open>insertText(selection, text)\<close>, lines 1116-1327. The function calls itself (lines 1159
  and 1175); the first argument bounds the depth of these calls, and the result is
  \<open>None\<close> when the source throws or the bound is used up.
\<close>

fun insertText :: "nat \<Rightarrow> string \<Rightarrow> ViewModel \<Rightarrow> ViewModel option" where
  "insertText 0 text vm = None"
| "insertText (Suc depth) text vm =
     do {
       s0 \<leftarrow> selection vm;
       let anchorIsFirst = (isCollapsed s0 \<or> isBefore vm (anchor s0) (focus s0));
       vm1 \<leftarrow> (if anchorIsFirst \<and> p_type (anchor s0) = BlockP
               then transferStartingBlockPointToTextPoint True vm
               else if \<not> anchorIsFirst \<and> p_type (focus s0) = BlockP
               then transferStartingBlockPointToTextPoint False vm
               else Some vm);
       s \<leftarrow> selection vm1;
       let selectedNodes = getNodes vm1 s;
       let firstPoint = (if anchorIsFirst then anchor s else focus s);
       let endPoint = (if anchorIsFirst then focus s else anchor s);
       firstNode0 \<leftarrow> elementAt selectedNodes 0;
       fn \<leftarrow> getNodeByKey vm1 firstNode0;
       if \<not> isTextNode fn then None
       else do {
         let firstNodeTextLength = int (length (getTextContent vm1 firstNode0));
         b \<leftarrow> insertTextBoundary text firstNode0 fn (p_offset firstPoint) firstNodeTextLength s vm1;
         (case b of
            Retry vm2 \<Rightarrow> insertText depth text vm2
          | Continue firstNode vm2 \<Rightarrow>
              if length selectedNodes = 1
              then insertTextSingle text firstNode (p_offset firstPoint) (p_offset endPoint)
                     (textFormat s) vm2
              else insertTextMulti text selectedNodes firstNode (p_offset firstPoint) endPoint
                     firstNodeTextLength vm2)
       }
     }"

text \<open>\<open>removeText(selection)\<close>, lines 838-840.\<close>

definition removeText :: "nat \<Rightarrow> ViewModel \<Rightarrow> ViewModel option" where
  "removeText depth vm = insertText depth [] vm"


text \<open>
  The module-level memo \<open>cssToStyles\<close> (line 37) maps a style string to its parsed
  style object. A style object is a list of property-value pairs in insertion order.
\<close>

type_synonym StyleObject = "(string \<times> string) list"

type_synonym CssCache = "(string \<times> StyleObject) list"

text \<open>\<open>getStyleObjectFromCSS(css)\<close>, lines 232-234.\<close>

definition getStyleObjectFromCSS :: "CssCache \<Rightarrow> string \<Rightarrow> StyleObject option" where
  "getStyleObjectFromCSS cssToStyles css = map_of cssToStyles css"

text \<open>\<open>getCSSFromStyleObject(styles)\<close>, lines 236-244; a property with an empty name is
  skipped.\<close>

fun getCSSFromStyleObject :: "StyleObject \<Rightarrow> string" where
  "getCSSFromStyleObject [] = []"
| "getCSSFromStyleObject ((style, v) # rest) =
     (if style \<noteq> [] then style @ '': '' @ v @ '';'' else []) @ getCSSFromStyleObject rest"

text \<open>The object spread \<open>{...prevStyles, ...patch}\<close>: the later value of a property wins,
  a new property goes to the end.\<close>

definition spread :: "StyleObject \<Rightarrow> StyleObject \<Rightarrow> StyleObject" where
  "spread prevStyles patch = fold (\<lambda>(k, v). AList.update k v) patch prevStyles"

text \<open>\<open>patchNodeStyle(node, patch)\<close>, lines 246-252.\<close>

definition patchNodeStyle ::
  "NodeKey \<Rightarrow> StyleObject \<Rightarrow> CssCache \<times> ViewModel \<Rightarrow> (CssCache \<times> ViewModel) option" where
  "patchNodeStyle k patch st =
     (case st of (cssToStyles, vm) \<Rightarrow>
        do {
          n \<leftarrow> getNodeByKey vm k;
          let prevStyles = getStyleObjectFromCSS cssToStyles (n_style n);
          let newStyles = (case prevStyles of Some p \<Rightarrow> spread p patch | None \<Rightarrow> patch);
          let newCSSText = getCSSFromStyleObject newStyles;
          vm1 \<leftarrow> setStyle k newCSSText vm;
          Some (AList.update newCSSText newStyles cssToStyles, vm1)
        })"

text \<open>
  Lines 280-291 of \<open>patchStyleText\<close> and 429-441 of \<open>formatText\<close>: a selection that
  starts at the very end of the first node starts at the next sibling instead, when that
  is a text node. The result is the first node, the anchor offset and the start offset.
\<close>

definition skipEndOfFirstNode ::
  "ViewModel \<Rightarrow> NodeKey \<Rightarrow> int \<Rightarrow> int \<Rightarrow> NodeKey \<times> int \<times> int \<times> bool" where
  "skipEndOfFirstNode vm firstNode anchorOffset startOffset =
     (if startOffset = getTextContentSize vm firstNode
         \<and> nodeIs isTextNode vm (getNextSibling vm firstNode)
      then (case getNextSibling vm firstNode of
              Some nextSibling \<Rightarrow> (nextSibling, 0, 0, True)
            | None \<Rightarrow> (firstNode, anchorOffset, startOffset, False))
      else (firstNode, anchorOffset, startOffset, False))"

text \<open>Lines 337-349: the text nodes strictly between the first and the last selected
  node get the style.\<close>

fun patchBetween ::
  "NodeKey \<Rightarrow> NodeKey \<Rightarrow> StyleObject \<Rightarrow> NodeKey list \<Rightarrow> CssCache \<times> ViewModel
     \<Rightarrow> (CssCache \<times> ViewModel) option" where
  "patchBetween firstNode lastNode patch [] st = Some st"
| "patchBetween firstNode lastNode patch (selectedNode # rest) st =
     do {
       n \<leftarrow> getNodeByKey (snd st) selectedNode;
       st1 \<leftarrow> (if isTextNode n \<and> selectedNode \<noteq> firstNode \<and> selectedNode \<noteq> lastNode
                  \<and> \<not> n_immutable n
               then patchNodeStyle selectedNode patch st else Some st);
       patchBetween firstNode lastNode patch rest st1
     }"

text \<open>
  \<open>patchStyleText(selection, patch)\<close>, lines 254-351. The state is the memo and the
  view model. \<open>selectedNodes[0]\<close> of an empty array is \<open>undefined\<close>, and a method call
  on it throws.
\<close>

definition patchStyleText ::
  "StyleObject \<Rightarrow> CssCache \<times> ViewModel \<Rightarrow> (CssCache \<times> ViewModel) option" where
  "patchStyleText patch st =
     (case st of (cssToStyles, vm) \<Rightarrow>
        do {
          s \<leftarrow> selection vm;
          let selectedNodes = getNodes vm s;
          let lastIndex = int (length selectedNodes) - 1;
          if isCollapsed s then Some st
          else do {
            firstNode0 \<leftarrow> elementAt selectedNodes 0;
            lastNode0 \<leftarrow> elementAt selectedNodes lastIndex;
            let firstNodeTextLength = int (length (getTextContent vm firstNode0));
            let focusOffset = p_offset (focus s);
            let anchorIsFirst = isBefore vm (anchor s) (focus s);
            let startOffset0 = (if anchorIsFirst then p_offset (anchor s) else focusOffset);
            let endOffset0 = (if anchorIsFirst then focusOffset else p_offset (anchor s));
            let (firstNode, anchorOffset, startOffset1, skipped) =
                  skipEndOfFirstNode vm firstNode0 (p_offset (anchor s)) startOffset0;
            if firstNode = lastNode0 then
              (if nodeIs isTextNode vm (Some firstNode) then
                 (let startOffset = (if anchorOffset > focusOffset then focusOffset else anchorOffset);
                      endOffset = (if anchorOffset > focusOffset then anchorOffset else focusOffset)
                  in if startOffset = endOffset then Some st
                     else if startOffset = 0 \<and> endOffset = firstNodeTextLength then
                       do {
                         (c1, vm1) \<leftarrow> patchNodeStyle firstNode patch st;
                         vm2 \<leftarrow> select firstNode (Some startOffset) (Some endOffset) vm1;
                         Some (c1, vm2)
                       }
                     else
                       do {
                         (splitNodes, vm1) \<leftarrow> splitText firstNode [startOffset, endOffset] vm;
                         replacement \<leftarrow> elementAt splitNodes (if startOffset = 0 then 0 else 1);
                         (c2, vm2) \<leftarrow> patchNodeStyle replacement patch (cssToStyles, vm1);
                         vm3 \<leftarrow> select replacement (Some 0) (Some (endOffset - startOffset)) vm2;
                         Some (c2, vm3)
                       })
               else Some st)
            else
              do {
                (firstNode1, st1) \<leftarrow>
                  (if nodeIs isTextNode vm (Some firstNode) then
                     do {
                       (f, vm1) \<leftarrow>
                         (if startOffset1 \<noteq> 0 then
                            do {
                              (splitNodes, vms) \<leftarrow> splitText firstNode [startOffset1] vm;
                              f \<leftarrow> elementAt splitNodes 1;
                              Some (f, vms)
                            }
                          else Some (firstNode, vm));
                       stp \<leftarrow> patchNodeStyle f patch (cssToStyles, vm1);
                       Some (f, stp)
                     }
                   else Some (firstNode, st));
                (lastNode1, st2) \<leftarrow>
                  (if nodeIs isTextNode (snd st1) (Some lastNode0) then
                     do {
                       (l, vm2) \<leftarrow>
                         (if endOffset0 \<noteq> int (length (getTextContent (snd st1) lastNode0)) then
                            do {
                              (splitNodes, vms) \<leftarrow> splitText lastNode0 [endOffset0] (snd st1);
                              l \<leftarrow> elementAt splitNodes 0;
                              Some (l, vms)
                            }
                          else Some (lastNode0, snd st1));
                       stp \<leftarrow> patchNodeStyle l patch (fst st1, vm2);
                       Some (l, stp)
                     }
                   else Some (lastNode0, st1));
                patchBetween firstNode1 lastNode1 patch
                  (take (nat (lastIndex - 1)) (drop 1 selectedNodes)) st2
              }
          }
        })"

text \<open>Lines 413-420 of \<open>formatText\<close>: the format of the first text node among the
  selected nodes with the bit toggled, 0 without a text node.\<close>

fun firstTextNodeFormat ::
  "FormatTable \<Rightarrow> TextFormatType \<Rightarrow> ViewModel \<Rightarrow> NodeKey list \<Rightarrow> TextFormat" where
  "firstTextNodeFormat table formatType vm [] = 0"
| "firstTextNodeFormat table formatType vm (selectedNode # rest) =
     (case getNodeByKey vm selectedNode of
        Some n \<Rightarrow> (if isTextNode n then getTextNodeFormat table n formatType None
                   else firstTextNodeFormat table formatType vm rest)
      | None \<Rightarrow> firstTextNodeFormat table formatType vm rest)"

text \<open>Lines 489-505: the text nodes strictly between the first and the last selected
  node get the format aligned with the running format.\<close>

fun formatBetween ::
  "FormatTable \<Rightarrow> TextFormatType \<Rightarrow> NodeKey \<Rightarrow> NodeKey \<Rightarrow> TextFormat \<Rightarrow> NodeKey list \<Rightarrow> ViewModel
     \<Rightarrow> ViewModel option" where
  "formatBetween table formatType firstNode lastNode lastNextFormat [] vm = Some vm"
| "formatBetween table formatType firstNode lastNode lastNextFormat (selectedNode # rest) vm =
     do {
       n \<leftarrow> getNodeByKey vm selectedNode;
       vm1 \<leftarrow> (if isTextNode n \<and> selectedNode \<noteq> firstNode \<and> selectedNode \<noteq> lastNode
                  \<and> \<not> n_immutable n
               then setFormat selectedNode
                      (getTextNodeFormat table n formatType (Some lastNextFormat)) vm
               else Some vm);
       formatBetween table formatType firstNode lastNode lastNextFormat rest vm1
     }"

text \<open>\<open>formatText(selection, formatType)\<close>, lines 394-507.\<close>

definition formatText :: "FormatTable \<Rightarrow> TextFormatType \<Rightarrow> ViewModel \<Rightarrow> ViewModel option" where
  "formatText table formatType vm =
     do {
       s \<leftarrow> selection vm;
       let selectedNodes = getNodes vm s;
       let lastIndex = int (length selectedNodes) - 1;
       if isCollapsed s then Some (vm\<lparr>selection := Some (toggleTextFormatType table formatType s)\<rparr>)
       else do {
         firstNode0 \<leftarrow> elementAt selectedNodes 0;
         lastNode0 \<leftarrow> elementAt selectedNodes lastIndex;
         let firstNodeTextLength = int (length (getTextContent vm firstNode0));
         let focusOffset = p_offset (focus s);
         let firstNextFormat0 = firstTextNodeFormat table formatType vm selectedNodes;
         let anchorIsFirst = isBefore vm (anchor s) (focus s);
         let startOffset0 = (if anchorIsFirst then p_offset (anchor s) else focusOffset);
         let endOffset0 = (if anchorIsFirst then focusOffset else p_offset (anchor s));
         let (firstNode, anchorOffset, startOffset1, skipped) =
               skipEndOfFirstNode vm firstNode0 (p_offset (anchor s)) startOffset0;
         fnode \<leftarrow> getNodeByKey vm firstNode;
         let firstNextFormat = (if skipped then getTextNodeFormat table fnode formatType None
                                else firstNextFormat0);
         if firstNode = lastNode0 then
           (if isTextNode fnode then
              (let startOffset = (if anchorOffset > focusOffset then focusOffset else anchorOffset);
                   endOffset = (if anchorOffset > focusOffset then anchorOffset else focusOffset)
               in if startOffset = endOffset then Some vm
                  else if startOffset = 0 \<and> endOffset = firstNodeTextLength then
                    do {
                      vm1 \<leftarrow> setFormat firstNode firstNextFormat vm;
                      select firstNode (Some startOffset) (Some endOffset) vm1
                    }
                  else
                    do {
                      (splitNodes, vm1) \<leftarrow> splitText firstNode [startOffset, endOffset] vm;
                      replacement \<leftarrow> elementAt splitNodes (if startOffset = 0 then 0 else 1);
                      vm2 \<leftarrow> setFormat replacement firstNextFormat vm1;
                      select replacement (Some 0) (Some (endOffset - startOffset)) vm2
                    })
            else Some vm)
         else
           do {
             (firstNode1, vm1) \<leftarrow>
               (if isTextNode fnode then
                  do {
                    (f, vms) \<leftarrow>
                      (if startOffset1 \<noteq> 0 then
                         do {
                           (splitNodes, vms) \<leftarrow> splitText firstNode [startOffset1] vm;
                           f \<leftarrow> elementAt splitNodes 1;
                           Some (f, vms)
                         }
                       else Some (firstNode, vm));
                    vmf \<leftarrow> setFormat f firstNextFormat vms;
                    Some (f, vmf)
                  }
                else Some (firstNode, vm));
             lnode \<leftarrow> getNodeByKey vm1 lastNode0;
             let lastNextFormat = (if isTextNode lnode
                                   then getTextNodeFormat table lnode formatType (Some firstNextFormat)
                                   else firstNextFormat);
             (lastNode1, vm2) \<leftarrow>
               (if isTextNode lnode then
                  do {
                    (l, vms) \<leftarrow>
                      (if endOffset0 \<noteq> int (length (getTextContent vm1 lastNode0)) then
                         do {
                           (splitNodes, vms) \<leftarrow> splitText lastNode0 [endOffset0] vm1;
                           l \<leftarrow> elementAt splitNodes 0;
                           Some (l, vms)
                         }
                       else Some (lastNode0, vm1));
                    vml \<leftarrow> setFormat l lastNextFormat vms;
                    Some (l, vml)
                  }
                else Some (lastNode0, vm1));
             formatBetween table formatType firstNode1 lastNode1 lastNextFormat
               (take (nat (lastIndex - 1)) (drop 1 selectedNodes)) vm2
           }
       }
     }"


text \<open>
  What the deletion helpers take from outside the tree: the browser's
  \<open>Selection.modify\<close> with the range it leaves (its start point, its end point, and
  whether the browser's anchor is the start of the range; \<open>None\<close> when there is no
  range), \<open>doesContainGrapheme\<close> of \<open>outline/TextHelpers\<close>, and the \<open>collapseAtStart\<close>
  that each container class defines. They are parameters.
\<close>

datatype Granularity = Character | Word | Lineboundary

record Platform =
  domModify :: "ViewModel \<Rightarrow> bool \<Rightarrow> bool \<Rightarrow> Granularity \<Rightarrow> (Point \<times> Point \<times> bool) option"
  doesContainGrapheme :: "string \<Rightarrow> bool"
  collapseAtStart :: "NodeKey \<Rightarrow> ViewModel \<Rightarrow> (bool \<times> ViewModel) option"

text \<open>
  Modelled from the spec: \<open>shared/getPossibleDecoratorNode(focus, isBackward)\<close>; the node
  the caret moves toward: for a block point the child before or at the index, for a
  text point at the edge of its node the sibling on that side, otherwise none.
\<close>

definition getPossibleDecoratorNode :: "ViewModel \<Rightarrow> Point \<Rightarrow> bool \<Rightarrow> NodeKey option" where
  "getPossibleDecoratorNode vm focusPoint isBackward =
     (if p_type focusPoint = BlockP
      then getChildAtIndex vm (p_key focusPoint)
             (if isBackward then p_offset focusPoint - 1 else p_offset focusPoint)
      else if (isBackward \<and> p_offset focusPoint = 0)
              \<or> (\<not> isBackward \<and> p_offset focusPoint = getTextContentSize vm (p_key focusPoint))
      then (if isBackward then getPreviousSibling vm (p_key focusPoint)
            else getNextSibling vm (p_key focusPoint))
      else None)"

text \<open>
  Modelled from the spec: \<open>Selection.applyDOMRange\<close> followed by the \<open>swapPoints\<close> of
  lines 828-834; the anchor is the start of the range and the focus its end, exchanged
  when the browser's anchor is not the start.
\<close>

definition applyDOMRange :: "Point \<times> Point \<times> bool \<Rightarrow> bool \<Rightarrow> Selection \<Rightarrow> Selection" where
  "applyDOMRange domRange collapse s =
     (case domRange of (startPoint, endPoint, anchorIsStart) \<Rightarrow>
        if \<not> collapse \<and> \<not> anchorIsStart
        then s\<lparr>anchor := endPoint, focus := startPoint, isDirty := True\<rparr>
        else s\<lparr>anchor := startPoint, focus := endPoint, isDirty := True\<rparr>)"

text \<open>\<open>updateCaretSelectionForRange(selection, isBackward, granularity, collapse)\<close>,
  lines 786-836.\<close>

definition updateCaretSelectionForRange ::
  "Platform \<Rightarrow> bool \<Rightarrow> Granularity \<Rightarrow> bool \<Rightarrow> ViewModel \<Rightarrow> ViewModel option" where
  "updateCaretSelectionForRange pf isBackward granularity collapse vm =
     do {
       s \<leftarrow> selection vm;
       let possibleDecoratorNode = getPossibleDecoratorNode vm (focus s) isBackward;
       let sibling = (case possibleDecoratorNode of
                        None \<Rightarrow> None
                      | Some d \<Rightarrow> (if isBackward then getPreviousSibling vm d
                                    else getNextSibling vm d));
       if nodeIs isDecoratorNode vm possibleDecoratorNode \<and> \<not> nodeIs isTextNode vm sibling
       then do {
         d \<leftarrow> possibleDecoratorNode;
         blockKey \<leftarrow> getParentOrThrow vm d;
         let pt = \<lparr>p_key = blockKey, p_offset = getIndexWithinParent vm d, p_type = BlockP\<rparr>;
         Some (vm\<lparr>selection :=
                 Some (if collapse then s\<lparr>anchor := pt, focus := pt, isDirty := True\<rparr>
                       else s\<lparr>focus := pt, isDirty := True\<rparr>)\<rparr>)
       }
       else
         (case domModify pf vm collapse isBackward granularity of
            None \<Rightarrow> Some vm
          | Some domRange \<Rightarrow> Some (vm\<lparr>selection := Some (applyDOMRange domRange collapse s)\<rparr>))
     }"

text \<open>\<open>updateCaretSelectionForUnicodeCharacter(selection, isBackward)\<close>, lines 623-658.\<close>

definition updateCaretSelectionForUnicodeCharacter ::
  "Platform \<Rightarrow> bool \<Rightarrow> ViewModel \<Rightarrow> ViewModel option" where
  "updateCaretSelectionForUnicodeCharacter pf isBackward vm =
     do {
       s \<leftarrow> selection vm;
       if p_key (anchor s) = p_key (focus s) \<and> p_type (anchor s) = TextP \<and> p_type (focus s) = TextP
       then
         (let anchorOffset = p_offset (anchor s);
              focusOffset = p_offset (focus s);
              anchorIsFirst = (anchorOffset < focusOffset);
              startOffset = (if anchorIsFirst then anchorOffset else focusOffset);
              endOffset = (if anchorIsFirst then focusOffset else anchorOffset);
              characterOffset = endOffset - 1
          in if startOffset \<noteq> characterOffset
                \<and> \<not> doesContainGrapheme pf
                       (slice_str (getTextContent vm (p_key (anchor s))) startOffset (Some endOffset))
             then Some (vm\<lparr>selection :=
                          Some (if isBackward
                                then s\<lparr>focus := (focus s)\<lparr>p_offset := characterOffset\<rparr>\<rparr>
                                else s\<lparr>anchor := (anchor s)\<lparr>p_offset := characterOffset\<rparr>\<rparr>)\<rparr>)
             else Some vm)
       else Some vm
     }"

text \<open>\<open>updateCaretSelectionForAdjacentHashtags(selection)\<close>, lines 660-690.\<close>

definition updateCaretSelectionForAdjacentHashtags :: "ViewModel \<Rightarrow> ViewModel option" where
  "updateCaretSelectionForAdjacentHashtags vm =
     do {
       s \<leftarrow> selection vm;
       if p_type (anchor s) \<noteq> TextP then Some vm
       else do {
         let anchorNode = p_key (anchor s);
         an \<leftarrow> getNodeByKey vm anchorNode;
         let textContent = getTextContent vm anchorNode;
         let anchorOffset = p_offset (anchor s);
         if anchorOffset = 0 \<and> isSimpleText an then
           (case getPreviousSibling vm anchorNode of
              None \<Rightarrow> Some vm
            | Some sibling \<Rightarrow>
                if nodeIs isTextNode vm (Some sibling) \<and> nodeIs isHashtagNode vm (Some sibling)
                then do {
                  vm1 \<leftarrow> select sibling None None vm;
                  vm2 \<leftarrow> setTextContent sibling (getTextContent vm1 sibling @ textContent) vm1;
                  remove anchorNode vm2
                }
                else Some vm)
         else if isHashtagNode an \<and> anchorOffset = getTextContentSize vm anchorNode then
           (case getNextSibling vm anchorNode of
              None \<Rightarrow> Some vm
            | Some sibling \<Rightarrow>
                if nodeIs isTextNode vm (Some sibling) \<and> nodeIs isSimpleText vm (Some sibling)
                then do {
                  vm1 \<leftarrow> setTextContent anchorNode (textContent @ getTextContent vm sibling) vm;
                  remove sibling vm1
                }
                else Some vm)
         else Some vm
       }
     }"

text \<open>
  The regular expression \<open>\s\<close> on the characters of a \<open>string\<close> (code units below 256):
  tab, line feed, vertical tab, form feed, carriage return, space and no-break space.
\<close>

definition isWhitespace :: "char \<Rightarrow> bool" where
  "isWhitespace c = (of_char c \<in> {9, 10, 11, 12, 13, 32, 160 :: nat})"

text \<open>\<open>textContent.split(/\s/g)\<close>: the pieces between the whitespace characters, empty
  pieces included.\<close>

fun splitWhitespace :: "string \<Rightarrow> string list" where
  "splitWhitespace [] = [[]]"
| "splitWhitespace (c # cs) =
     (if isWhitespace c then [] # splitWhitespace cs
      else (case splitWhitespace cs of
              [] \<Rightarrow> [[c]]
            | w # ws \<Rightarrow> (c # w) # ws))"

text \<open>\<open>split.join(' ')\<close>.\<close>

fun joinSpace :: "string list \<Rightarrow> string" where
  "joinSpace [] = []"
| "joinSpace [w] = w"
| "joinSpace (w # ws) = w @ '' '' @ joinSpace ws"

text \<open>\<open>removeSegment(node, isBackward)\<close>, lines 749-771.\<close>

definition removeSegment :: "NodeKey \<Rightarrow> bool \<Rightarrow> ViewModel \<Rightarrow> ViewModel option" where
  "removeSegment node isBackward vm =
     (let textContent = getTextContent vm node;
          split = splitWhitespace textContent;
          split1 = (if isBackward then butlast split else drop 1 split);
          nextTextContent = joinSpace split1
      in if nextTextContent = [] then remove node vm
         else do {
           vm1 \<leftarrow> setTextContent node nextTextContent vm;
           if isBackward then select node None None vm1
           else select node (Some 0) (Some 0) vm1
         })"

text \<open>
  Lines 698-724 of \<open>deleteCharacter\<close>: the segmented node whose segment goes, if the
  extended selection touches one in the way the source tests.
\<close>

definition segmentedTarget :: "ViewModel \<Rightarrow> Selection \<Rightarrow> bool \<Rightarrow> NodeKey option" where
  "segmentedTarget vm s isBackward =
     (let focusNode = (if p_type (focus s) = TextP then Some (p_key (focus s)) else None);
          anchorNode = (if p_type (anchor s) = TextP then Some (p_key (anchor s)) else None)
      in if focusNode \<noteq> None \<and> nodeIs n_segmented vm focusNode then
           (let offset = p_offset (focus s);
                textContentSize = getTextContentSize vm (p_key (focus s))
            in if focusNode = anchorNode
                  \<or> (isBackward \<and> offset \<noteq> textContentSize)
                  \<or> (\<not> isBackward \<and> offset \<noteq> 0)
               then focusNode else None)
         else if anchorNode \<noteq> None \<and> nodeIs n_segmented vm anchorNode then
           (let offset = p_offset (anchor s);
                textContentSize = getTextContentSize vm (p_key (anchor s))
            in if anchorNode = focusNode
                  \<or> (isBackward \<and> offset \<noteq> 0)
                  \<or> (\<not> isBackward \<and> offset \<noteq> textContentSize)
               then anchorNode else None)
         else None)"

text \<open>
  Lines 699-700: \<open>getNode\<close> of a text point throws on a key that the map does not hold
  (a stale reference).
\<close>

definition pointNodeExists :: "ViewModel \<Rightarrow> Point \<Rightarrow> bool" where
  "pointNodeExists vm pt = (p_type pt = TextP \<longrightarrow> getNodeByKey vm (p_key pt) \<noteq> None)"

text \<open>\<open>deleteCharacter(selection, isBackward)\<close>, lines 692-739; the first argument
  bounds the depth of the calls of \<open>insertText\<close> under \<open>removeText\<close>.\<close>

definition deleteCharacter :: "Platform \<Rightarrow> nat \<Rightarrow> bool \<Rightarrow> ViewModel \<Rightarrow> ViewModel option" where
  "deleteCharacter pf depth isBackward vm =
     do {
       s0 \<leftarrow> selection vm;
       let finish = (\<lambda>v. do { v1 \<leftarrow> removeText depth v; updateCaretSelectionForAdjacentHashtags v1 });
       if isCollapsed s0 then
         do {
           vm1 \<leftarrow> updateCaretSelectionForRange pf isBackward Character False vm;
           s \<leftarrow> selection vm1;
           if \<not> isCollapsed s then
             if \<not> pointNodeExists vm1 (focus s) \<or> \<not> pointNodeExists vm1 (anchor s) then None
             else
             (case segmentedTarget vm1 s isBackward of
                Some node \<Rightarrow> removeSegment node isBackward vm1
              | None \<Rightarrow>
                  do {
                    vm2 \<leftarrow> updateCaretSelectionForUnicodeCharacter pf isBackward vm1;
                    finish vm2
                  })
           else if isBackward \<and> p_offset (anchor s) = 0 then
             do {
               block \<leftarrow> (if p_type (anchor s) = BlockP then Some (p_key (anchor s))
                         else getParentOrThrow vm1 (p_key (anchor s)));
               (collapsed, vm2) \<leftarrow> collapseAtStart pf block vm1;
               if collapsed then Some vm2 else finish vm2
             }
           else finish vm1
         }
       else finish vm
     }"

text \<open>\<open>deleteBackward\<close>, lines 741-743.\<close>

definition deleteBackward :: "Platform \<Rightarrow> nat \<Rightarrow> ViewModel \<Rightarrow> ViewModel option" where
  "deleteBackward pf depth vm = deleteCharacter pf depth True vm"

text \<open>\<open>deleteForward\<close>, lines 745-747.\<close>

definition deleteForward :: "Platform \<Rightarrow> nat \<Rightarrow> ViewModel \<Rightarrow> ViewModel option" where
  "deleteForward pf depth vm = deleteCharacter pf depth False vm"

section \<open>The root node (RootNode)\<close>

text \<open>
  The methods of \<open>RootNode\<close> that end in \<open>invariant(false, ...)\<close> throw; the result type
  carries the error with its message.
\<close>

datatype Error = InvariantViolation string

text \<open>
  Modelled from the spec: \<open>isElementNode\<close> of \<open>OutlineElementNode\<close>; the container
  classes.
\<close>

definition isElementNode :: "OutlineNode \<Rightarrow> bool" where
  "isElementNode n = isBlockNode n"

text \<open>\<open>RootNode.select\<close>, lines 50-53.\<close>

definition RootNode_select :: "ViewModel \<Rightarrow> Error + ViewModel" where
  "RootNode_select vm = Inl (InvariantViolation ''select: cannot be called on root nodes'')"

text \<open>\<open>RootNode.remove\<close>, lines 55-58.\<close>

definition RootNode_remove :: "ViewModel \<Rightarrow> Error + ViewModel" where
  "RootNode_remove vm = Inl (InvariantViolation ''remove: cannot be called on root nodes'')"

text \<open>\<open>RootNode.replace\<close>, lines 60-63.\<close>

definition RootNode_replace :: "NodeKey \<Rightarrow> ViewModel \<Rightarrow> Error + ViewModel" where
  "RootNode_replace node vm = Inl (InvariantViolation ''replace: cannot be called on root nodes'')"

text \<open>\<open>RootNode.insertBefore\<close>, lines 65-67.\<close>

definition RootNode_insertBefore :: "ViewModel \<Rightarrow> Error + ViewModel" where
  "RootNode_insertBefore vm =
     Inl (InvariantViolation ''insertBefore: cannot be called on root nodes'')"

text \<open>\<open>RootNode.insertAfter\<close>, lines 69-71.\<close>

definition RootNode_insertAfter :: "NodeKey \<Rightarrow> ViewModel \<Rightarrow> Error + ViewModel" where
  "RootNode_insertAfter node vm =
     Inl (InvariantViolation ''insertAfter: cannot be called on root nodes'')"

text \<open>
  Modelled from the spec: \<open>ElementNode.append(...nodesToAppend)\<close>, the \<open>super.append\<close> of
  \<open>RootNode.append\<close>; the nodes become the last children of the container, in order. A
  key that the map does not hold is a stale reference.
\<close>

fun ElementNode_append :: "NodeKey \<Rightarrow> NodeKey list \<Rightarrow> ViewModel \<Rightarrow> Error + ViewModel" where
  "ElementNode_append element [] vm = Inr vm"
| "ElementNode_append element (node # nodes) vm =
     (case attach element node (\<lambda>cs. cs @ [node]) vm of
        None \<Rightarrow> Inl (InvariantViolation ''stale reference'')
      | Some vm1 \<Rightarrow> ElementNode_append element nodes vm1)"

text \<open>
  \<open>RootNode.append(...nodesToAppend)\<close>, lines 81-91. \<open>isElementNode\<close> of a key that
  the map does not hold is false.
\<close>

definition RootNode_append :: "NodeKey list \<Rightarrow> ViewModel \<Rightarrow> Error + ViewModel" where
  "RootNode_append nodesToAppend vm =
     (if \<exists>node \<in> set nodesToAppend. \<not> nodeIs isElementNode vm (Some node)
      then Inl (InvariantViolation
                  ''rootNode.append: Only element nodes can be appended to the root node'')
      else ElementNode_append ROOT_KEY nodesToAppend vm)"



text \<open>Concrete editors, collaborators and callbacks for the examples.\<close>

definition exVM :: ViewModel where
  "exVM = \<lparr>nodeMap = [], selection = None, dirtyNodes = []\<rparr>"

definition exDirtyVM :: ViewModel where
  "exDirtyVM = \<lparr>nodeMap = [], selection = None, dirtyNodes = [1]\<rparr>"

definition exCollaborators :: Collaborators where
  "exCollaborators =
     \<lparr>createSelection = (\<lambda>pvm current. selection current),
      viewModelHasDirtySelection = (\<lambda>pvm current. selection pvm \<noteq> selection current),
      applyTextTransforms = id,
      garbageCollectDetachedNodes = (\<lambda>pvm pending. (pvm, pending))\<rparr>"

definition exIdleEditor :: OutlineEditor where
  "exIdleEditor =
     \<lparr>viewModel = 0, pendingViewModel = None, updateTimeStamp = 0, updateListeners = [7],
      nodeDecorators = [], pendingNodeDecorators = None,
      store = (\<lambda>_. exVM), nextRef = 1, microtasks = [], trace = []\<rparr>"

definition exDraftingEditor :: OutlineEditor where
  "exDraftingEditor =
     \<lparr>viewModel = 0, pendingViewModel = Some 1, updateTimeStamp = 1, updateListeners = [7],
      nodeDecorators = [], pendingNodeDecorators = None,
      store = (\<lambda>_. exVM)(1 := exDirtyVM), nextRef = 2, microtasks = [CommitTask], trace = []\<rparr>"

definition markDirty :: "ViewModel \<Rightarrow> ViewModel" where
  "markDirty vm = vm\<lparr>dirtyNodes := ROOT_KEY # dirtyNodes vm\<rparr>"


text \<open>Concrete documents for the scenarios.\<close>

definition rootNode :: "NodeKey list \<Rightarrow> OutlineNode" where
  "rootNode cs = (plainTextNode [])\<lparr>n_type := RootT, n_children := cs\<rparr>"

definition paragraphNode :: "NodeKey list \<Rightarrow> OutlineNode" where
  "paragraphNode cs =
     (plainTextNode [])\<lparr>n_type := BlockT, n_parent := Some ROOT_KEY, n_children := cs\<rparr>"

definition textNodeIn :: "NodeKey \<Rightarrow> string \<Rightarrow> OutlineNode" where
  "textNodeIn p t = (plainTextNode t)\<lparr>n_parent := Some p\<rparr>"

definition textPoint :: "NodeKey \<Rightarrow> int \<Rightarrow> Point" where
  "textPoint k i = \<lparr>p_key = k, p_offset = i, p_type = TextP\<rparr>"

definition rangeSelection :: "Point \<Rightarrow> Point \<Rightarrow> Selection" where
  "rangeSelection a f = \<lparr>anchor = a, focus = f, textFormat = 0, isDirty = False\<rparr>"

text \<open>Root \<open>\<rightarrow>\<close> Paragraph \<open>\<rightarrow>\<close> Text("ab"), the caret at offset 1.\<close>

definition exAb :: ViewModel where
  "exAb =
     \<lparr>nodeMap = [(0, rootNode [1]), (1, paragraphNode [2]), (2, textNodeIn 1 ''ab'')],
      selection = Some (rangeSelection (textPoint 2 1) (textPoint 2 1)),
      dirtyNodes = []\<rparr>"

text \<open>Root \<open>\<rightarrow>\<close> Paragraph \<open>\<rightarrow>\<close> Text("foo") + Text("bar"), selected from (foo, 1) to (bar, 2).\<close>

definition exFooBar :: ViewModel where
  "exFooBar =
     \<lparr>nodeMap = [(0, rootNode [1]), (1, paragraphNode [2, 3]),
                 (2, textNodeIn 1 ''foo''), (3, textNodeIn 1 ''bar'')],
      selection = Some (rangeSelection (textPoint 2 1) (textPoint 3 2)),
      dirtyNodes = []\<rparr>"


text \<open>
  What a node holds apart from its place in the tree, and the statement that a view
  model still holds a node with that content under a key: the tree operations that only
  move nodes keep it for every key.
\<close>

definition nodeContent :: "OutlineNode \<Rightarrow> OutlineNode" where
  "nodeContent n = n\<lparr>n_parent := None, n_children := []\<rparr>"

definition keeps :: "NodeKey \<Rightarrow> OutlineNode \<Rightarrow> ViewModel \<Rightarrow> bool" where
  "keeps k n vm = (\<exists>n'. getNodeByKey vm k = Some n' \<and> nodeContent n' = nodeContent n)"

text \<open>
  The text that \<open>spliceText\<close> leaves in a node, and a selection with both points set
  to text points of one node.
\<close>

definition splicedText :: "string \<Rightarrow> int \<Rightarrow> int \<Rightarrow> string \<Rightarrow> string" where
  "splicedText t offset delCount newText =
     slice_str t 0 (Some offset) @ newText @ slice_str t (offset + delCount) None"

definition movedSelection :: "Selection \<Rightarrow> NodeKey \<Rightarrow> int \<Rightarrow> int \<Rightarrow> Selection" where
  "movedSelection s k anchorOffset focusOffset =
     s\<lparr>anchor := \<lparr>p_key = k, p_offset = anchorOffset, p_type = TextP\<rparr>,
        focus := \<lparr>p_key = k, p_offset = focusOffset, p_type = TextP\<rparr>,
        isDirty := True\<rparr>"


text \<open>
  The claim about segmented nodes in its own words, to compare with \<open>removeSegment\<close>:
  the whitespace-delimited segments of a text with the offsets where each starts and
  ends, the segment adjacent to the caret in the direction of the deletion (the one that
  ends at the caret when deleting backward, the one that starts there when deleting
  forward), and the text that is left when exactly that segment goes and the other
  segments are rejoined with single spaces.
\<close>

fun segmentSpans :: "nat \<Rightarrow> string list \<Rightarrow> (nat \<times> nat) list" where
  "segmentSpans start [] = []"
| "segmentSpans start (w # ws) =
     (start, start + length w) # segmentSpans (start + length w + 1) ws"

fun adjacentSegment :: "(nat \<times> nat) list \<Rightarrow> nat \<Rightarrow> bool \<Rightarrow> nat option" where
  "adjacentSegment [] caret isBackward = None"
| "adjacentSegment ((a, b) # spans) caret isBackward =
     (if (isBackward \<and> b = caret) \<or> (\<not> isBackward \<and> a = caret) then Some 0
      else map_option Suc (adjacentSegment spans caret isBackward))"

definition claimedAdjacentRemoval :: "string \<Rightarrow> nat \<Rightarrow> bool \<Rightarrow> string" where
  "claimedAdjacentRemoval t caret isBackward =
     (case adjacentSegment (segmentSpans 0 (splitWhitespace t)) caret isBackward of
        None \<Rightarrow> t
      | Some i \<Rightarrow> joinSpace (take i (splitWhitespace t) @ drop (Suc i) (splitWhitespace t)))"



text \<open>The documents of the scenarios with the first text node composing.\<close>

definition composing :: "NodeKey \<Rightarrow> ViewModel \<Rightarrow> ViewModel" where
  "composing k vm =
     vm\<lparr>nodeMap := map (\<lambda>(j, n). (j, if j = k then n\<lparr>n_composing := True\<rparr> else n)) (nodeMap vm)\<rparr>"

text \<open>A detached paragraph beside the document, to append to the root.\<close>

definition exTwoParagraphs :: ViewModel where
  "exTwoParagraphs =
     \<lparr>nodeMap = [(0, rootNode [1]), (1, paragraphNode [2]), (2, textNodeIn 1 ''ab''),
                 (3, (paragraphNode [])\<lparr>n_parent := None\<rparr>)],
      selection = None, dirtyNodes = []\<rparr>"



text \<open>A format table for the examples: every format type has the lowest bit.\<close>

definition exTable :: FormatTable where
  "exTable formatType = 1"


section \<open>Properties of the editor host\<close>

lemma commitPendingUpdates_Some:
  "pendingViewModel e = Some p \<Longrightarrow>
   commitPendingUpdates e =
     e\<lparr>viewModel := p, pendingViewModel := None,
       nodeDecorators := (case pendingNodeDecorators e of None \<Rightarrow> nodeDecorators e | Some d \<Rightarrow> d),
       pendingNodeDecorators := None,
       trace := trace e @ Committed p # map (\<lambda>l. ListenerInvoked l p) (updateListeners e)\<rparr>"
  by (simp add: commitPendingUpdates_def triggerUpdateListeners_def)

lemma forceCommit_same:
  "Some (updateTimeStamp e) = timeStamp \<Longrightarrow> forceCommit timeStamp e = (pendingViewModel e, e)"
  by (simp add: forceCommit_def Let_def)

lemma forceCommit_idle:
  "pendingViewModel e = None \<Longrightarrow> Some (updateTimeStamp e) \<noteq> timeStamp \<Longrightarrow>
   forceCommit timeStamp e =
     (None, case timeStamp of None \<Rightarrow> e | Some t \<Rightarrow> e\<lparr>updateTimeStamp := t\<rparr>)"
  by (simp add: forceCommit_def Let_def)


lemma obtainDraft_None:
  "obtainDraft None e =
     ((nextRef e, True),
      e\<lparr>store := (store e)(nextRef e := (store e (viewModel e))\<lparr>dirtyNodes := []\<rparr>),
        nextRef := Suc (nextRef e),
        trace := trace e @ [Cloned (viewModel e) (nextRef e)],
        pendingViewModel := Some (nextRef e)\<rparr>)"
  by (simp add: obtainDraft_def cloneViewModel_def Let_def)

lemma obtainDraft_Some: "obtainDraft (Some p) e = ((p, False), e)"
  by (simp add: obtainDraft_def)

lemma prepareDraft_same:
  assumes "pendingViewModel e = Some p" and "Some (updateTimeStamp e) = timeStamp"
  shows "prepareDraft c callbackFn timeStamp e =
           ((p, False),
            e\<lparr>store := (store e)(p := fst (scopeBody c callbackFn False (store e (viewModel e))
                                           (pendingNodeDecorators e) (store e p))),
              pendingNodeDecorators := snd (scopeBody c callbackFn False (store e (viewModel e))
                                           (pendingNodeDecorators e) (store e p)),
              trace := trace e @ [EnteredScope p]\<rparr>)"
  using assms
  by (simp add: prepareDraft_def forceCommit_same obtainDraft_Some enterViewModelScope_def)

lemma prepareDraft_fresh:
  assumes "forceCommit timeStamp e = (None, e1)"
  shows "prepareDraft c callbackFn timeStamp e =
           ((nextRef e1, True),
            e1\<lparr>store := (store e1)(nextRef e1 :=
                  fst (scopeBody c callbackFn True
                    (((store e1)(nextRef e1 := (store e1 (viewModel e1))\<lparr>dirtyNodes := []\<rparr>)) (viewModel e1))
                    (pendingNodeDecorators e1)
                    ((store e1 (viewModel e1))\<lparr>dirtyNodes := []\<rparr>))),
               pendingNodeDecorators :=
                  snd (scopeBody c callbackFn True
                    (((store e1)(nextRef e1 := (store e1 (viewModel e1))\<lparr>dirtyNodes := []\<rparr>)) (viewModel e1))
                    (pendingNodeDecorators e1)
                    ((store e1 (viewModel e1))\<lparr>dirtyNodes := []\<rparr>)),
               nextRef := Suc (nextRef e1),
               trace := trace e1 @ [Cloned (viewModel e1) (nextRef e1), EnteredScope (nextRef e1)],
               pendingViewModel := Some (nextRef e1)\<rparr>)"
  using assms
  by (simp add: prepareDraft_def obtainDraft_None enterViewModelScope_def)

lemma forceCommit_cases:
  "(\<exists>p. pendingViewModel e = Some p \<and> Some (updateTimeStamp e) = timeStamp)
   \<or> (\<exists>e1. forceCommit timeStamp e = (None, e1))"
  by (cases "pendingViewModel e") (auto simp add: forceCommit_def Let_def)


lemma update_decide:
  "prepareDraft c callbackFn timeStamp e = ((p, cloned), e3) \<Longrightarrow>
   update c callbackFn timeStamp e =
     (if \<not> shouldUpdate c p e3 then (False, e3\<lparr>pendingViewModel := None\<rparr>)
      else if timeStamp = None then (True, commitPendingUpdates e3)
      else if cloned then (True, e3\<lparr>microtasks := microtasks e3 @ [CommitTask]\<rparr>)
      else (True, e3))"
  by (simp add: update_def)


lemmas editor_defs = update_def prepareDraft_def forceCommit_def obtainDraft_def
  cloneViewModel_def commitPendingUpdates_def triggerUpdateListeners_def
  enterViewModelScope_def scopeBody_def shouldUpdate_def hasDirtyNodes_def

lemmas example_defs = exVM_def exDirtyVM_def exCollaborators_def exIdleEditor_def
  exDraftingEditor_def markDirty_def ROOT_KEY_def




lemma forceCommit_frame:
  "forceCommit timeStamp e = (q, e1) \<Longrightarrow>
     microtasks e1 = microtasks e \<and> updateListeners e1 = updateListeners e"
  by (cases timeStamp; cases "pendingViewModel e")
     (auto simp add: forceCommit_def Let_def commitPendingUpdates_Some split: if_splits)

lemma prepareDraft_facts:
  assumes prep: "prepareDraft c callbackFn timeStamp e = ((p, cloned), e3)"
  shows "microtasks e3 = microtasks e \<and> updateListeners e3 = updateListeners e
         \<and> pendingViewModel e3 = Some p \<and> (\<not> cloned \<longrightarrow> pendingViewModel e \<noteq> None)"
proof -
  from forceCommit_cases [of e timeStamp] show ?thesis
  proof (elim disjE exE conjE)
    fix q assume q: "pendingViewModel e = Some q" "Some (updateTimeStamp e) = timeStamp"
    from prep show ?thesis
      unfolding prepareDraft_same [OF q, of c callbackFn] using q by auto
  next
    fix e1 assume fc: "forceCommit timeStamp e = (None, e1)"
    from prep show ?thesis
      unfolding prepareDraft_fresh [OF fc, of c callbackFn]
      using forceCommit_frame [OF fc] by auto
  qed
qed


lemma update_keeps_commit_queued:
  assumes "pendingViewModel e \<noteq> None \<longrightarrow> microtasks e \<noteq> []"
  shows "pendingViewModel (snd (update c callbackFn timeStamp e)) \<noteq> None
           \<longrightarrow> microtasks (snd (update c callbackFn timeStamp e)) \<noteq> []"
proof -
  obtain p cloned e3 where prep: "prepareDraft c callbackFn timeStamp e = ((p, cloned), e3)"
    by (metis surj_pair)
  note f = prepareDraft_facts [OF prep]
  show ?thesis
    using f assms
    by (simp add: update_decide [OF prep] commitPendingUpdates_Some)
qed

lemma runMicrotask_keeps_commit_queued:
  assumes "pendingViewModel e \<noteq> None \<longrightarrow> microtasks e \<noteq> []"
  shows "pendingViewModel (runMicrotask e) \<noteq> None \<longrightarrow> microtasks (runMicrotask e) \<noteq> []"
  using assms
  by (cases "microtasks e"; cases "pendingViewModel e")
     (auto simp add: runMicrotask_def commitPendingUpdates_def triggerUpdateListeners_def
           split: Task.splits)

text \<open>Two same-timestamp updates from Idle, then the microtask: one commit.\<close>

lemma same_timestamp_updates_coalesce:
  "trace (runMicrotask (snd (update exCollaborators markDirty (Some 5)
            (snd (update exCollaborators markDirty (Some 5) exIdleEditor)))))
     = [Cloned 0 1, EnteredScope 1, EnteredScope 1, Committed 1, ListenerInvoked 7 1]"
  by (simp add: editor_defs example_defs runMicrotask_def)



section \<open>Properties of the selection helpers\<close>

text \<open>
  Claim C4. On Root \<open>\<rightarrow>\<close> Paragraph \<open>\<rightarrow>\<close> Text("foo") + Text("bar") with the selection
  from (foo, 1) to (bar, 2), \<open>insertText(selection, "")\<close> returns, for every bound of at
  least one call, and leaves the text content "fr" in the document: "f" in the first leaf,
  "r" in the second, both still children of the paragraph.
\<close>

theorem insertText_two_leaves:
  "map_option (\<lambda>vm. (getTextContent vm ROOT_KEY, getTextContent vm 2, getTextContent vm 3,
                      getChildren vm 1))
     (insertText (Suc depth) [] exFooBar) = Some (''fr'', ''f'', ''r'', [2, 3])"
  by code_simp

text \<open>
  Claim C5. On Root \<open>\<rightarrow>\<close> Paragraph \<open>\<rightarrow>\<close> Text("ab") with the caret at offset 1,
  \<open>insertText(selection, "X")\<close> returns, for every bound of at least one call, with the
  text "aXb" in the leaf and the selection collapsed at offset 2 of that leaf.
\<close>

theorem insertText_collapsed_in_leaf:
  "map_option (\<lambda>vm. (getTextContent vm 2, map_option anchor (selection vm),
                      map_option focus (selection vm), map_option isCollapsed (selection vm)))
     (insertText (Suc depth) ''X'' exAb)
   = Some (''aXb'', Some (textPoint 2 2), Some (textPoint 2 2), Some True)"
  by code_simp

text \<open>
  Claim C10. With a collapsed selection \<open>patchStyleText\<close> returns with the view model
  and the style memo as they were: no node is mutated.
\<close>

theorem patchStyleText_collapsed:
  assumes "selection vm = Some s" and "isCollapsed s"
  shows "patchStyleText patch (cssToStyles, vm) = Some (cssToStyles, vm)"
  using assms by (simp add: patchStyleText_def)

theorem patchStyleText_collapsed_witness:
  "selection exAb = Some (rangeSelection (textPoint 2 1) (textPoint 2 1))
   \<and> isCollapsed (rangeSelection (textPoint 2 1) (textPoint 2 1))
   \<and> patchStyleText [(''color'', ''red'')] ([], exAb) = Some ([], exAb)"
proof -
  have h1: "selection exAb = Some (rangeSelection (textPoint 2 1) (textPoint 2 1))"
    by (simp add: exAb_def)
  have h2: "isCollapsed (rangeSelection (textPoint 2 1) (textPoint 2 1))"
    by (simp add: isCollapsed_def rangeSelection_def)
  from h1 h2 patchStyleText_collapsed [OF h1 h2, of "[(''color'', ''red'')]" "[]"]
  show ?thesis by simp
qed

text \<open>
  Claim C7. With a collapsed selection \<open>formatText\<close> changes the selection only: the
  bit of the format type is flipped in the pending format (and the selection is marked
  dirty), the node map and the dirty set stay as they were; a second \<open>formatText\<close> with
  the same format type brings the pending format back to the original.
\<close>

theorem formatText_collapsed:
  assumes "selection vm = Some s" and "isCollapsed s"
  shows "formatText table formatType vm
           = Some (vm\<lparr>selection := Some (s\<lparr>textFormat := textFormat s XOR table formatType,
                                            isDirty := True\<rparr>)\<rparr>)
       \<and> (formatText table formatType vm \<bind> formatText table formatType)
           = Some (vm\<lparr>selection := Some (s\<lparr>textFormat := textFormat s, isDirty := True\<rparr>)\<rparr>)"
  using assms
  by (simp add: formatText_def toggleTextFormatType_def isCollapsed_def xor.assoc)

theorem formatText_collapsed_witness:
  "selection exAb = Some (rangeSelection (textPoint 2 1) (textPoint 2 1))
   \<and> isCollapsed (rangeSelection (textPoint 2 1) (textPoint 2 1))
   \<and> map_option (\<lambda>vm. (nodeMap vm, map_option textFormat (selection vm)))
         (formatText exTable ''bold'' exAb) = Some (nodeMap exAb, Some 1)
   \<and> map_option (\<lambda>vm. (nodeMap vm, map_option textFormat (selection vm)))
         (formatText exTable ''bold'' exAb \<bind> formatText exTable ''bold'')
       = Some (nodeMap exAb, Some 0)"
proof -
  have h1: "selection exAb = Some (rangeSelection (textPoint 2 1) (textPoint 2 1))"
    by (simp add: exAb_def)
  have h2: "isCollapsed (rangeSelection (textPoint 2 1) (textPoint 2 1))"
    by (simp add: isCollapsed_def rangeSelection_def)
  note t = formatText_collapsed [OF h1 h2, of exTable "''bold''"]
  have c1: "map_option (\<lambda>vm. (nodeMap vm, map_option textFormat (selection vm)))
         (formatText exTable ''bold'' exAb) = Some (nodeMap exAb, Some 1)"
    unfolding t [THEN conjunct1] by (simp add: exTable_def rangeSelection_def)
  have c2: "map_option (\<lambda>vm. (nodeMap vm, map_option textFormat (selection vm)))
         (formatText exTable ''bold'' exAb \<bind> formatText exTable ''bold'')
       = Some (nodeMap exAb, Some 0)"
    unfolding t [THEN conjunct2] by (simp add: rangeSelection_def)
  show ?thesis by (intro conjI h1 h2 c1 c2)
qed


section \<open>Properties of the node operations\<close>

lemma getNodeByKey_writeNode [simp]:
  "getNodeByKey (writeNode k n vm) j = (if j = k then Some n else getNodeByKey vm j)"
  by (simp add: getNodeByKey_def writeNode_def update_conv')

lemma selection_writeNode [simp]: "selection (writeNode k n vm) = selection vm"
  by (simp add: writeNode_def)

lemma getChildren_writeNode [simp]:
  "getChildren (writeNode k n vm) j = (if j = k then n_children n else getChildren vm j)"
  by (simp add: getChildren_def)

lemma getTextContent_text:
  "getNodeByKey vm k = Some n \<Longrightarrow> isTextNode n \<Longrightarrow> getTextContent vm k = n_text n"
  by (simp add: getTextContent_def)

lemma fold_max_ge: "x \<in> set xs \<Longrightarrow> x \<le> fold max xs (a::nat)"
proof -
  assume "x \<in> set xs"
  then have "x \<le> Max (set (a # xs))" by (intro Max_ge) simp_all
  then show ?thesis by (simp only: Max.set_eq_fold)
qed

lemma freshKey_new: "getNodeByKey vm k = Some n \<Longrightarrow> freshKey vm \<noteq> k"
proof -
  assume "getNodeByKey vm k = Some n"
  then have "k \<in> set (map fst (nodeMap vm))"
    by (auto simp add: getNodeByKey_def dest: map_of_SomeD intro: rev_image_eqI)
  from fold_max_ge [OF this, of 0] show ?thesis by (simp add: freshKey_def)
qed

lemma keeps_writeNode_other: "j \<noteq> k \<Longrightarrow> keeps k n (writeNode j m vm) = keeps k n vm"
  by (simp add: keeps_def)

lemma keeps_writeNode_same:
  "nodeContent m = nodeContent n \<Longrightarrow> keeps k n (writeNode k m vm)"
  by (simp add: keeps_def)

lemma keeps_writeNode_structure:
  "keeps k n vm \<Longrightarrow> getNodeByKey vm j = Some m \<Longrightarrow> nodeContent m' = nodeContent m \<Longrightarrow>
   keeps k n (writeNode j m' vm)"
  by (auto simp add: keeps_def)

lemma detach_frame:
  "detach j vm = Some vm' \<Longrightarrow> selection vm' = selection vm \<and> (keeps k n vm \<longrightarrow> keeps k n vm')"
  by (auto simp add: detach_def keeps_def nodeContent_def split: bind_splits option.splits)

lemma remove_frame:
  "remove j vm = Some vm' \<Longrightarrow> selection vm' = selection vm \<and> (keeps k n vm \<longrightarrow> keeps k n vm')"
  by (auto simp add: remove_def split: bind_splits if_splits dest: detach_frame)

lemma attach_frame:
  "attach p j place vm = Some vm' \<Longrightarrow>
     selection vm' = selection vm \<and> (keeps k n vm \<longrightarrow> keeps k n vm')"
  apply (clarsimp simp add: attach_def split: bind_splits)
  apply (frule detach_frame [where k = k and n = n])
  apply (auto simp add: keeps_def nodeContent_def)
  done

lemma insertAfter_frame:
  "insertAfter t j vm = Some vm' \<Longrightarrow>
     selection vm' = selection vm \<and> (keeps k n vm \<longrightarrow> keeps k n vm')"
  by (auto simp add: insertAfter_def split: bind_splits if_splits dest: attach_frame)

lemma replace_frame:
  "replace t j vm = Some vm' \<Longrightarrow>
     selection vm' = selection vm \<and> (keeps k n vm \<longrightarrow> keeps k n vm')"
  apply (clarsimp simp add: replace_def split: bind_splits if_splits)
  apply (frule attach_frame [where k = k and n = n])
  apply (frule detach_frame [where k = k and n = n])
  apply auto
  done

lemma createTextNode_frame:
  "createTextNode t vm = (f, vm') \<Longrightarrow>
     selection vm' = selection vm \<and> (keeps k n vm \<longrightarrow> keeps k n vm' \<and> f \<noteq> k)"
  by (auto simp add: createTextNode_def keeps_def dest: freshKey_new)

lemma spliceText_frame:
  "spliceText l off del t False vm = Some vm' \<Longrightarrow> l \<noteq> k \<Longrightarrow>
     selection vm' = selection vm \<and> (keeps k n vm \<longrightarrow> keeps k n vm')"
  by (auto simp add: spliceText_def keeps_def Let_def split: bind_splits if_splits)


lemma nodeContent_eq:
  "nodeContent a = nodeContent b \<longleftrightarrow>
     n_type a = n_type b \<and> n_text a = n_text b \<and> n_format a = n_format b
     \<and> n_style a = n_style b \<and> n_immutable a = n_immutable b
     \<and> n_segmented a = n_segmented b \<and> n_inert a = n_inert b
     \<and> n_composing a = n_composing b \<and> n_canInsertTextAtEnd a = n_canInsertTextAtEnd b
     \<and> n_canBeEmpty a = n_canBeEmpty b"
  by (cases a; cases b) (auto simp add: nodeContent_def)

lemma trimLastNode_frame:
  assumes "trimLastNode endPoint l marked vm = Some (l', marked', vm')" and "l \<noteq> k"
  shows "selection vm' = selection vm \<and> (keeps k n vm \<longrightarrow> keeps k n vm')"
proof -
  obtain ln where ln: "getNodeByKey vm l = Some ln"
    using assms(1) by (auto simp add: trimLastNode_def split: bind_splits)
  note t = assms(1) [unfolded trimLastNode_def, simplified ln, simplified]
  show ?thesis
  proof (cases "(p_type endPoint = TextP \<and> (p_offset endPoint \<noteq> 0 \<or> getTextContent vm l = []))
          \<or> (p_type endPoint = BlockP \<and> getIndexWithinParent vm l < p_offset endPoint)")
    case False
    with t show ?thesis by (auto simp add: Let_def)
  next
    case outer: True
    show ?thesis
    proof (cases "isTextNode ln \<and> \<not> isImmutableOrInert ln \<and> p_offset endPoint \<noteq> getTextContentSize vm l")
      case False
      with t outer obtain "remove l vm = Some vm'"
        by (auto simp add: Let_def split: bind_splits if_splits)
      from remove_frame [OF this, of k n] show ?thesis .
    next
      case inner: True
      show ?thesis
      proof (cases "n_segmented ln")
        case False
        with t outer inner have "spliceText l 0 (p_offset endPoint) [] False vm = Some vm'"
          by (auto simp add: Let_def split: bind_splits if_splits)
        from spliceText_frame [OF this assms(2), of n] show ?thesis .
      next
        case True
        obtain f vmc where c: "createTextNode (getTextContent vm l) vm = (f, vmc)"
          by (metis surj_pair)
        with t outer inner True obtain vmr where
          r: "replace l f vmc = Some vmr" and
          sp: "spliceText f 0 (p_offset endPoint) [] False vmr = Some vm'"
          by (auto simp add: Let_def split: bind_splits if_splits)
        note cf = createTextNode_frame [OF c, of k n]
        note rf = replace_frame [OF r, of k n]
        show ?thesis
        proof (intro conjI impI)
          show "selection vm' = selection vm"
            using cf rf spliceText_frame [OF sp, of "Suc f" n] by simp
          assume kk: "keeps k n vm"
          with cf have "f \<noteq> k" and "keeps k n vmc" by simp_all
          with rf spliceText_frame [OF sp \<open>f \<noteq> k\<close>, of n] show "keeps k n vm'" by simp
        qed
      qed
    qed
  qed
qed

lemma moveOrRemoveChildren_frame:
  "moveOrRemoveChildren firstNode lastNode selectedNodes eq children vm = Some vm' \<Longrightarrow>
     selection vm' = selection vm \<and> (keeps k n vm \<longrightarrow> keeps k n vm')"
proof (induction children arbitrary: vm)
  case Nil
  then show ?case by simp
next
  case (Cons child rest)
  show ?case
  proof (cases "child = firstNode")
    case True
    with Cons.prems show ?thesis by simp
  next
    case False
    with Cons.prems obtain vm1 where
      step: "(if isAttached vm child then
             (if child \<notin> set selectedNodes \<or> child = lastNode
              then (if \<not> eq then insertAfter firstNode child vm else Some vm)
              else remove child vm)
           else Some vm) = Some vm1"
      and rest: "moveOrRemoveChildren firstNode lastNode selectedNodes eq rest vm1 = Some vm'"
      by (auto split: bind_splits)
    from step have "selection vm1 = selection vm \<and> (keeps k n vm \<longrightarrow> keeps k n vm1)"
      by (auto split: if_splits dest: insertAfter_frame [where k = k and n = n]
          remove_frame [where k = k and n = n])
    with Cons.IH [OF rest] show ?thesis by simp
  qed
qed

lemma removeUnmarked_frame:
  "removeUnmarked marked nodes vm = Some vm' \<Longrightarrow>
     selection vm' = selection vm \<and> (keeps k n vm \<longrightarrow> keeps k n vm')"
proof (induction nodes arbitrary: vm)
  case Nil
  then show ?case by simp
next
  case (Cons node rest)
  then obtain vm1 where
    step: "(if node \<notin> set marked then remove node vm else Some vm) = Some vm1"
    and rest: "removeUnmarked marked rest vm1 = Some vm'"
    by (auto split: bind_splits)
  from step have "selection vm1 = selection vm \<and> (keeps k n vm \<longrightarrow> keeps k n vm1)"
    by (auto split: if_splits dest: remove_frame [where k = k and n = n])
  with Cons.IH [OF rest] show ?case by simp
qed

lemma splice_then_afterSplice:
  assumes k: "keeps k n vm" and tn: "isTextNode n" and im: "\<not> isImmutableOrInert n"
    and s: "selection vm = Some s"
    and r: "(spliceText k off del text True vm \<bind> afterSplice k text) = Some vm'"
    and ne: "splicedText (n_text n) off del text \<noteq> []"
  shows "selection vm'
           = Some (movedSelection s k
                     (off + int (length text) - (if n_composing n then int (length text) else 0))
                     (off + int (length text)))
         \<and> keeps k (n\<lparr>n_text := splicedText (n_text n) off del text\<rparr>) vm'"
proof -
  from k obtain n' where n': "getNodeByKey vm k = Some n'" "nodeContent n' = nodeContent n"
    by (auto simp add: keeps_def)
  then have same: "isTextNode n' = isTextNode n" "isImmutableOrInert n' = isImmutableOrInert n"
    "n_composing n' = n_composing n" "n_text n' = n_text n"
    by (simp_all add: nodeContent_eq isTextNode_def isImmutableOrInert_def)
  define m where "m = n'\<lparr>n_text := splicedText (n_text n) off del text\<rparr>"
  define vm1 where "vm1 = writeNode k m
     (setSelectionRange \<lparr>p_key = k, p_offset = off + int (length text), p_type = TextP\<rparr>
                        \<lparr>p_key = k, p_offset = off + int (length text), p_type = TextP\<rparr> vm)"
  have sp: "spliceText k off del text True vm = Some vm1"
    using n' same tn im s
    by (simp add: spliceText_def Let_def vm1_def m_def splicedText_def)
  have g1: "getNodeByKey vm1 k = Some m" by (simp add: vm1_def)
  have tm: "isTextNode m" using same tn by (simp add: m_def isTextNode_def)
  have tc: "getTextContent vm1 k = n_text m" using g1 tm by (rule getTextContent_text)
  have s1: "selection vm1 = Some (movedSelection s k (off + int (length text)) (off + int (length text)))"
    using s by (simp add: vm1_def setSelectionRange_def movedSelection_def)
  from r sp have a: "afterSplice k text vm1 = Some vm'" by simp
  have nonempty: "n_text m \<noteq> []" using ne by (simp add: m_def)
  have cm: "n_composing m = n_composing n" using same by (simp add: m_def)
  from a g1 tc nonempty s1 cm
  have res: "vm' = (if n_composing n
       then vm1\<lparr>selection := Some (movedSelection s k (off + int (length text) - int (length text))
                 (off + int (length text)))\<rparr>
       else vm1)"
    by (auto simp add: afterSplice_def movedSelection_def)
  have km: "keeps k (n\<lparr>n_text := splicedText (n_text n) off del text\<rparr>) vm1"
    using g1 n' by (simp add: keeps_def m_def nodeContent_eq)
  show ?thesis
    using res s1 km by (auto simp add: keeps_def getNodeByKey_def)
qed


lemma setFormat_frame:
  "setFormat k f vm = Some vm' \<Longrightarrow> keeps k n vm \<Longrightarrow>
     selection vm' = selection vm \<and> keeps k (n\<lparr>n_format := f\<rparr>) vm'"
  by (auto simp add: setFormat_def keeps_def nodeContent_eq split: bind_splits)

text \<open>
  Claim C8. In both branches of \<open>insertText\<close>, when the splice into the first node
  is reached and leaves text in it, \<open>spliceText\<close> has put anchor and focus behind the
  inserted text, and the correction that follows changes the anchor only: for a composing
  first node the anchor's offset is that offset minus the length of the text, and the
  focus keeps the offset \<open>spliceText\<close> gave it; for a node that is not composing
  nothing is subtracted. In the branch for several nodes nothing after the splice touches
  the selection. The step after the splice (lines 1207-1211 and 1308-1312) by itself, on
  any view model in which the first node has text: the anchor's offset loses the length
  of the text when the node is composing and the anchor is a text point, and nothing
  else changes; otherwise nothing changes at all.
\<close>

theorem insertText_composition_offset:
  "(insertTextSingle text k startOffset endOffset textFormat0 vm = Some vm'
      \<and> getNodeByKey vm k = Some n \<and> isTextNode n \<and> \<not> isImmutableOrInert n
      \<and> \<not> (startOffset = endOffset \<and> n_format n \<noteq> textFormat0 \<and> n_text n \<noteq> [])
      \<and> selection vm = Some s
      \<and> splicedText (n_text n) startOffset (endOffset - startOffset) text \<noteq> []
    \<longrightarrow> selection vm'
          = Some (movedSelection s k
                    (startOffset + int (length text)
                       - (if n_composing n then int (length text) else 0))
                    (startOffset + int (length text))))
   \<and> (insertTextMulti text selectedNodes k startOffset endPoint firstNodeTextLength vm = Some vm'
      \<and> getNodeByKey vm k = Some n \<and> isTextNode n \<and> \<not> isImmutableOrInert n
      \<and> elementAt selectedNodes (int (length selectedNodes) - 1) \<noteq> Some k
      \<and> selection vm = Some s
      \<and> splicedText (n_text n) startOffset (firstNodeTextLength - startOffset) text \<noteq> []
    \<longrightarrow> selection vm'
          = Some (movedSelection s k
                    (startOffset + int (length text)
                       - (if n_composing n then int (length text) else 0))
                    (startOffset + int (length text))))
   \<and> (getNodeByKey vm k = Some n \<and> getTextContent vm k \<noteq> [] \<and> selection vm = Some s
    \<longrightarrow> afterSplice k text vm
          = Some (if n_composing n \<and> p_type (anchor s) = TextP
                  then vm\<lparr>selection :=
                         Some (s\<lparr>anchor := (anchor s)\<lparr>p_offset := p_offset (anchor s)
                                                               - int (length text)\<rparr>\<rparr>)\<rparr>
                  else vm))"
proof (intro conjI impI; elim conjE)
  assume r: "insertTextSingle text k startOffset endOffset textFormat0 vm = Some vm'"
    and g: "getNodeByKey vm k = Some n" and tn: "isTextNode n" and im: "\<not> isImmutableOrInert n"
    and reach: "\<not> (startOffset = endOffset \<and> n_format n \<noteq> textFormat0 \<and> n_text n \<noteq> [])"
    and s: "selection vm = Some s"
    and ne: "splicedText (n_text n) startOffset (endOffset - startOffset) text \<noteq> []"
  have tc: "getTextContent vm k = n_text n" using g tn by (rule getTextContent_text)
  have kk: "keeps k n vm" using g by (simp add: keeps_def)
  show "selection vm'
          = Some (movedSelection s k
                    (startOffset + int (length text)
                       - (if n_composing n then int (length text) else 0))
                    (startOffset + int (length text)))"
  proof (cases "startOffset = endOffset \<and> n_format n \<noteq> textFormat0")
    case False
    with r g im reach tc
    have "(spliceText k startOffset (endOffset - startOffset) text True vm \<bind> afterSplice k text) = Some vm'"
      by (auto simp add: insertTextSingle_def)
    from splice_then_afterSplice [OF kk tn im s this ne] show ?thesis by simp
  next
    case True
    with r g im reach tc obtain vm1 where
      sf: "setFormat k textFormat0 vm = Some vm1" and
      sp: "(spliceText k startOffset (endOffset - startOffset) text True vm1 \<bind> afterSplice k text) = Some vm'"
      by (auto simp add: insertTextSingle_def split: bind_splits)
    note f = setFormat_frame [OF sf kk]
    have tn': "isTextNode (n\<lparr>n_format := textFormat0\<rparr>)" using tn by (simp add: isTextNode_def)
    have im': "\<not> isImmutableOrInert (n\<lparr>n_format := textFormat0\<rparr>)"
      using im by (simp add: isImmutableOrInert_def)
    from f s have s1: "selection vm1 = Some s" by simp
    from f have k1: "keeps k (n\<lparr>n_format := textFormat0\<rparr>) vm1" by simp
    have ne': "splicedText (n_text (n\<lparr>n_format := textFormat0\<rparr>)) startOffset (endOffset - startOffset) text \<noteq> []"
      using ne by simp
    from splice_then_afterSplice [OF k1 tn' im' s1 sp ne'] show ?thesis by simp
  qed
next
  assume r: "insertTextMulti text selectedNodes k startOffset endPoint firstNodeTextLength vm = Some vm'"
    and g: "getNodeByKey vm k = Some n" and tn: "isTextNode n" and im: "\<not> isImmutableOrInert n"
    and lk: "elementAt selectedNodes (int (length selectedNodes) - 1) \<noteq> Some k"
    and s: "selection vm = Some s"
    and ne: "splicedText (n_text n) startOffset (firstNodeTextLength - startOffset) text \<noteq> []"
  have kk: "keeps k n vm" using g by (simp add: keeps_def)
  from r obtain lastNode0 firstBlock lastBlock lastNode marked1 vm1 vm2 vm3 marked2 eq where
    l0: "elementAt selectedNodes (int (length selectedNodes) - 1) = Some lastNode0"
    and tr: "trimLastNode endPoint lastNode0
               (remdups (getParentKeys vm k @ getParentKeys vm lastNode0)) vm = Some (lastNode, marked1, vm1)"
    and mv: "moveOrRemoveChildren k lastNode selectedNodes eq (rev (getChildren vm1 lastBlock)) vm1 = Some vm2"
    and sf: "spliceFirstNode text k startOffset firstNodeTextLength vm2 = Some vm3"
    and ru: "removeUnmarked marked2 (drop 1 selectedNodes) vm3 = Some vm'"
    by (auto simp add: insertTextMulti_def Let_def split: bind_splits)
  from l0 lk have ne0: "lastNode0 \<noteq> k" by auto
  note f1 = trimLastNode_frame [OF tr ne0, of n]
  note f2 = moveOrRemoveChildren_frame [OF mv, of k n]
  from f1 f2 kk s have k2: "keeps k n vm2" and s2: "selection vm2 = Some s" by simp_all
  from k2 obtain n2 where n2: "getNodeByKey vm2 k = Some n2" "nodeContent n2 = nodeContent n"
    by (auto simp add: keeps_def)
  then have im2: "\<not> isImmutableOrInert n2"
    using im by (simp add: nodeContent_eq isImmutableOrInert_def)
  from sf n2 im2
  have "(spliceText k startOffset (firstNodeTextLength - startOffset) text True vm2
          \<bind> afterSplice k text) = Some vm3"
    by (simp add: spliceFirstNode_def)
  from splice_then_afterSplice [OF k2 tn im s2 this ne]
  have "selection vm3 = Some (movedSelection s k
                    (startOffset + int (length text)
                       - (if n_composing n then int (length text) else 0))
                    (startOffset + int (length text)))" by simp
  with removeUnmarked_frame [OF ru, of k n]
  show "selection vm'
          = Some (movedSelection s k
                    (startOffset + int (length text)
                       - (if n_composing n then int (length text) else 0))
                    (startOffset + int (length text)))" by simp
next
  assume "getNodeByKey vm k = Some n" and "getTextContent vm k \<noteq> []" and "selection vm = Some s"
  then show "afterSplice k text vm
          = Some (if n_composing n \<and> p_type (anchor s) = TextP
                  then vm\<lparr>selection :=
                         Some (s\<lparr>anchor := (anchor s)\<lparr>p_offset := p_offset (anchor s)
                                                               - int (length text)\<rparr>\<rparr>)\<rparr>
                  else vm)"
    by (simp add: afterSplice_def)
qed

theorem insertText_composition_offset_witness:
  "insertTextSingle ''X'' 2 1 1 0 (composing 2 exAb) \<noteq> None
   \<and> selection (the (insertTextSingle ''X'' 2 1 1 0 (composing 2 exAb)))
       = Some (movedSelection (rangeSelection (textPoint 2 1) (textPoint 2 1)) 2 (1 + 1 - 1) (1 + 1))
   \<and> insertTextMulti ''X'' [2, 3] 2 1 (textPoint 3 2) 3 (composing 2 exFooBar) \<noteq> None
   \<and> selection (the (insertTextMulti ''X'' [2, 3] 2 1 (textPoint 3 2) 3 (composing 2 exFooBar)))
       = Some (movedSelection (rangeSelection (textPoint 2 1) (textPoint 3 2)) 2 (1 + 1 - 1) (1 + 1))
   \<and> map_option selection (insertText 1 ''X'' (composing 2 exAb))
       = Some (Some \<lparr>anchor = textPoint 2 1, focus = textPoint 2 2, textFormat = 0,
                      isDirty = True\<rparr>)
   \<and> getTextContent (composing 2 exAb) 2 \<noteq> []
   \<and> map_option selection (afterSplice 2 ''X'' (composing 2 exAb))
       = Some (Some ((rangeSelection (textPoint 2 1) (textPoint 2 1))\<lparr>anchor := textPoint 2 0\<rparr>))"
proof -
  let ?a = "(textNodeIn 1 ''ab'')\<lparr>n_composing := True\<rparr>"
  let ?f = "(textNodeIn 1 ''foo'')\<lparr>n_composing := True\<rparr>"
  let ?v1 = "the (insertTextSingle ''X'' 2 1 1 0 (composing 2 exAb))"
  let ?v2 = "the (insertTextMulti ''X'' [2, 3] 2 1 (textPoint 3 2) 3 (composing 2 exFooBar))"
  have s1: "insertTextSingle ''X'' 2 1 1 0 (composing 2 exAb) = Some ?v1
      \<and> getNodeByKey (composing 2 exAb) 2 = Some ?a \<and> isTextNode ?a \<and> \<not> isImmutableOrInert ?a
      \<and> \<not> ((1::int) = 1 \<and> n_format ?a \<noteq> 0 \<and> n_text ?a \<noteq> [])
      \<and> selection (composing 2 exAb) = Some (rangeSelection (textPoint 2 1) (textPoint 2 1))
      \<and> splicedText (n_text ?a) 1 (1 - 1) ''X'' \<noteq> []"
    by code_simp
  have s2: "insertTextMulti ''X'' [2, 3] 2 1 (textPoint 3 2) 3 (composing 2 exFooBar) = Some ?v2
      \<and> getNodeByKey (composing 2 exFooBar) 2 = Some ?f \<and> isTextNode ?f \<and> \<not> isImmutableOrInert ?f
      \<and> elementAt [2, 3 :: nat] (int (length [2, 3 :: nat]) - 1) \<noteq> Some 2
      \<and> selection (composing 2 exFooBar) = Some (rangeSelection (textPoint 2 1) (textPoint 3 2))
      \<and> splicedText (n_text ?f) 1 (3 - 1) ''X'' \<noteq> []"
    by code_simp
  have c1: "n_composing ?a" and c2: "n_composing ?f" by simp_all
  note t1 = insertText_composition_offset
    [of "''X''" 2 1 1 0 "composing 2 exAb" ?v1 ?a "rangeSelection (textPoint 2 1) (textPoint 2 1)",
     THEN conjunct1, rule_format, OF s1]
  note t2 = insertText_composition_offset
    [of "''X''" 2 1 _ _ "composing 2 exFooBar" ?v2 ?f "rangeSelection (textPoint 2 1) (textPoint 3 2)"
        "[2, 3]" "textPoint 3 2" 3,
     THEN conjunct2, THEN conjunct1, rule_format, OF s2]
  have n1: "insertTextSingle ''X'' 2 1 1 0 (composing 2 exAb) \<noteq> None"
    using s1 by (metis option.distinct(1))
  have n2: "insertTextMulti ''X'' [2, 3] 2 1 (textPoint 3 2) 3 (composing 2 exFooBar) \<noteq> None"
    using s2 by (metis option.distinct(1))
  have r1: "selection ?v1
       = Some (movedSelection (rangeSelection (textPoint 2 1) (textPoint 2 1)) 2 (1 + 1 - 1) (1 + 1))"
    using t1 c1 by simp
  have r2: "selection ?v2
       = Some (movedSelection (rangeSelection (textPoint 2 1) (textPoint 3 2)) 2 (1 + 1 - 1) (1 + 1))"
    using t2 c2 by simp
  have e: "map_option selection (insertText 1 ''X'' (composing 2 exAb))
       = Some (Some \<lparr>anchor = textPoint 2 1, focus = textPoint 2 2, textFormat = 0,
                      isDirty = True\<rparr>)"
    by code_simp
  have s3: "getNodeByKey (composing 2 exAb) 2 = Some ?a
      \<and> getTextContent (composing 2 exAb) 2 \<noteq> []
      \<and> selection (composing 2 exAb) = Some (rangeSelection (textPoint 2 1) (textPoint 2 1))"
    by code_simp
  note t3 = insertText_composition_offset
    [of "''X''" 2 _ _ _ "composing 2 exAb" _ ?a "rangeSelection (textPoint 2 1) (textPoint 2 1)",
     THEN conjunct2, THEN conjunct2, rule_format, OF s3]
  have n3: "getTextContent (composing 2 exAb) 2 \<noteq> []" using s3 by blast
  have r3: "map_option selection (afterSplice 2 ''X'' (composing 2 exAb))
       = Some (Some ((rangeSelection (textPoint 2 1) (textPoint 2 1))\<lparr>anchor := textPoint 2 0\<rparr>))"
    unfolding t3 by (simp add: rangeSelection_def textPoint_def)
  show ?thesis by (intro conjI n1 r1 n2 r2 e n3 r3)
qed

section \<open>Properties of the deletion helpers\<close>



lemma segmentSpans_last_end:
  "ws \<noteq> [] \<Longrightarrow> snd (last (segmentSpans start ws)) = start + length (joinSpace ws)"
proof (induction ws arbitrary: start rule: joinSpace.induct)
  case 1 then show ?case by simp
next
  case (2 w) then show ?case by simp
next
  case (3 w v vs)
  from "3.IH" [of "start + length w + 1"] show ?case by simp
qed

lemma joinSpace_splitWhitespace_length:
  "length (joinSpace (splitWhitespace t)) = length t"
proof (induction t)
  case Nil then show ?case by simp
next
  case (Cons c cs)
  show ?case
  proof (cases "isWhitespace c")
    case True
    with Cons show ?thesis by (cases "splitWhitespace cs") auto
  next
    case False
    with Cons show ?thesis
      by (cases "splitWhitespace cs"; cases "tl (splitWhitespace cs)") auto
  qed
qed

lemma splitWhitespace_nonempty: "splitWhitespace t \<noteq> []"
  by (induction t) (auto split: list.splits)

lemma segmentSpans_ends_increase:
  "(a, b) \<in> set (segmentSpans start ws) \<Longrightarrow> start \<le> a \<and> a \<le> b"
  by (induction ws arbitrary: start) fastforce+

lemma adjacentSegment_backward_last:
  assumes "spans = segmentSpans start ws" and "ws \<noteq> []"
  shows "adjacentSegment spans (snd (last spans)) True = Some (length ws - 1)"
  using assms
proof (induction ws arbitrary: start spans)
  case Nil then show ?case by simp
next
  case (Cons w ws)
  show ?case
  proof (cases "ws = []")
    case True
    with Cons.prems show ?thesis by simp
  next
    case False
    define rest where "rest = segmentSpans (start + length w + 1) ws"
    have sp: "spans = (start, start + length w) # rest"
      using Cons.prems by (simp add: rest_def)
    have rne: "rest \<noteq> []" using False by (cases ws) (simp_all add: rest_def)
    have "last rest \<in> set rest" using rne by simp
    then have "start + length w + 1 \<le> snd (last rest)"
      using segmentSpans_ends_increase [of "fst (last rest)" "snd (last rest)" "start + length w + 1" ws]
      by (simp add: rest_def)
    then have neq: "start + length w \<noteq> snd (last rest)" by simp
    from Cons.IH [OF rest_def False]
    have "adjacentSegment rest (snd (last rest)) True = Some (length ws - 1)" .
    with neq rne False show ?thesis by (simp add: sp)
  qed
qed

text \<open>
  With the caret at the end of the node when deleting backward, or at its start when
  deleting forward, the segment that \<open>removeSegment\<close> takes is the adjacent one.
\<close>

lemma claimed_agrees_at_the_ends:
  "claimedAdjacentRemoval t (length t) True = joinSpace (butlast (splitWhitespace t))
   \<and> claimedAdjacentRemoval t 0 False = joinSpace (drop 1 (splitWhitespace t))"
proof
  let ?ws = "splitWhitespace t"
  have ne: "?ws \<noteq> []" by (rule splitWhitespace_nonempty)
  have e: "snd (last (segmentSpans 0 ?ws)) = length t"
    using segmentSpans_last_end [OF ne, of 0] by (simp add: joinSpace_splitWhitespace_length)
  from adjacentSegment_backward_last [OF refl ne, of 0]
  have "adjacentSegment (segmentSpans 0 ?ws) (length t) True = Some (length ?ws - 1)"
    by (simp add: e)
  then show "claimedAdjacentRemoval t (length t) True = joinSpace (butlast ?ws)"
    using ne by (simp add: claimedAdjacentRemoval_def butlast_conv_take)
  show "claimedAdjacentRemoval t 0 False = joinSpace (drop 1 (splitWhitespace t))"
    using ne by (cases ?ws) (simp_all add: claimedAdjacentRemoval_def)
qed



section \<open>Properties of the root node\<close>

lemma detach_children:
  "detach k vm = Some vm1 \<Longrightarrow> set (getChildren vm1 j) \<subseteq> set (getChildren vm j)"
  by (auto simp add: detach_def getChildren_def split: option.splits bind_splits if_splits)

lemma attach_children:
  "attach p k (\<lambda>cs. cs @ [k]) vm = Some vm2 \<Longrightarrow>
     set (getChildren vm2 j) \<subseteq> set (getChildren vm j) \<union> {k}"
  apply (clarsimp simp add: attach_def split: bind_splits)
  apply (frule detach_children [where j = j])
  apply (frule detach_children [where j = p])
  apply (auto simp add: getChildren_def split: if_splits option.splits)
  done

lemma ElementNode_append_children:
  "ElementNode_append e nodes vm = Inr vm' \<Longrightarrow>
     set (getChildren vm' j) \<subseteq> set (getChildren vm j) \<union> set nodes"
proof (induction nodes arbitrary: vm)
  case Nil
  then show ?case by simp
next
  case (Cons node nodes)
  then obtain vm1 where a: "attach e node (\<lambda>cs. cs @ [node]) vm = Some vm1"
    and r: "ElementNode_append e nodes vm1 = Inr vm'"
    by (auto split: option.splits)
  from Cons.IH [OF r] attach_children [OF a, of j] show ?case by auto
qed

text \<open>
  Claim C9. \<open>select\<close>, \<open>remove\<close> and \<open>replace\<close> of the root always throw the invariant
  error; \<open>append\<close> of the root throws it whenever one of the nodes is not a container,
  and when it returns, every appended node is a container and the children of the root
  are among its old children and the appended nodes. The node operations of the helpers
  dispatch to these methods: on a key that holds the root, \<open>select\<close>, \<open>remove\<close> and
  \<open>replace\<close> throw.
\<close>

theorem RootNode_guards:
  "RootNode_select vm = Inl (InvariantViolation ''select: cannot be called on root nodes'')
   \<and> RootNode_remove vm = Inl (InvariantViolation ''remove: cannot be called on root nodes'')
   \<and> RootNode_replace node vm = Inl (InvariantViolation ''replace: cannot be called on root nodes'')
   \<and> ((\<exists>n \<in> set nodesToAppend. \<not> nodeIs isElementNode vm (Some n)) \<longrightarrow>
        RootNode_append nodesToAppend vm
          = Inl (InvariantViolation
                  ''rootNode.append: Only element nodes can be appended to the root node''))
   \<and> (\<forall>vm'. RootNode_append nodesToAppend vm = Inr vm' \<longrightarrow>
         (\<forall>n \<in> set nodesToAppend. nodeIs isElementNode vm (Some n))
         \<and> set (getChildren vm' ROOT_KEY) \<subseteq> set (getChildren vm ROOT_KEY) \<union> set nodesToAppend)
   \<and> (getNodeByKey vm k = Some r \<and> isRootNode r \<longrightarrow>
         select k anchorOffset focusOffset vm = None \<and> remove k vm = None
         \<and> replace k node vm = None)"
proof (intro conjI allI impI)
  fix vm' assume r: "RootNode_append nodesToAppend vm = Inr vm'"
  then have ok: "\<not> (\<exists>n \<in> set nodesToAppend. \<not> nodeIs isElementNode vm (Some n))"
    by (auto simp add: RootNode_append_def split: if_splits)
  then show "\<forall>n \<in> set nodesToAppend. nodeIs isElementNode vm (Some n)" by simp
  from r ok have "ElementNode_append ROOT_KEY nodesToAppend vm = Inr vm'"
    by (simp add: RootNode_append_def)
  then show "set (getChildren vm' ROOT_KEY) \<subseteq> set (getChildren vm ROOT_KEY) \<union> set nodesToAppend"
    by (rule ElementNode_append_children)
qed (simp_all add: RootNode_select_def RootNode_remove_def RootNode_replace_def RootNode_append_def
      select_def remove_def replace_def)

theorem RootNode_guards_witness:
  "\<not> nodeIs isElementNode exTwoParagraphs (Some 2)
   \<and> RootNode_append [3, 2] exTwoParagraphs
       = Inl (InvariantViolation
               ''rootNode.append: Only element nodes can be appended to the root node'')
   \<and> isl (RootNode_append [3] exTwoParagraphs) = False
   \<and> nodeIs isElementNode exTwoParagraphs (Some 3)
   \<and> getChildren (projr (RootNode_append [3] exTwoParagraphs)) ROOT_KEY = [1, 3]
   \<and> getNodeByKey exTwoParagraphs ROOT_KEY = Some (rootNode [1]) \<and> isRootNode (rootNode [1])
   \<and> remove ROOT_KEY exTwoParagraphs = None"
proof -
  let ?v = "projr (RootNode_append [3] exTwoParagraphs)"
  have h1: "\<not> nodeIs isElementNode exTwoParagraphs (Some 2)" by code_simp
  then have h1': "\<exists>n \<in> set [3, 2]. \<not> nodeIs isElementNode exTwoParagraphs (Some n)" by simp
  have h2: "RootNode_append [3] exTwoParagraphs = Inr ?v" by code_simp
  note t = RootNode_guards [where vm = exTwoParagraphs and nodesToAppend = "[3, 2]"]
  note u = RootNode_guards [where vm = exTwoParagraphs and nodesToAppend = "[3]"]
  from t h1' have c1: "RootNode_append [3, 2] exTwoParagraphs
       = Inl (InvariantViolation
               ''rootNode.append: Only element nodes can be appended to the root node'')"
    by blast
  from u h2 have c2: "nodeIs isElementNode exTwoParagraphs (Some 3)" by simp
  have c3: "isl (RootNode_append [3] exTwoParagraphs) = False" using h2 by (metis sum.disc(2))
  have c4: "getChildren ?v ROOT_KEY = [1, 3]" by code_simp
  have h3: "getNodeByKey exTwoParagraphs ROOT_KEY = Some (rootNode [1]) \<and> isRootNode (rootNode [1])"
    by code_simp
  from RootNode_guards [where vm = exTwoParagraphs and k = ROOT_KEY and r = "rootNode [1]"] h3
  have c5: "remove ROOT_KEY exTwoParagraphs = None" by blast
  from h1 c1 c2 c3 c4 h3 c5 show ?thesis by simp
qed


end
